theory Spec2Isabelle
  imports Main
begin

section \<open>The indentation normalizer \<open>dedent\<close>\<close>

text \<open>
  The page \<^verbatim>\<open>src/routes/+page.svelte\<close> imports \<open>dedent\<close> from the package of
  the same name and applies it to every description, code fragment and notes text before
  it is handed to a component. The package is not part of the repository's sources, so the
  function is modelled from the specification of the Indentation Normalizer (section 4.1):
  the steps of its algorithm, read with its Contract and its edge cases, one definition
  per step.

  Strings are lists of characters, a line is a string without a newline, and the
  whitespace of a line is the two characters the specification names: space and tab.
\<close>

definition newline :: char where
  "newline = CHR 0x0A"

definition is_ws :: "char \<Rightarrow> bool" where
  "is_ws c = (c = CHR 0x20 \<or> c = CHR 0x09)"

text \<open>A line is blank when it is empty or holds whitespace only.\<close>

definition blank :: "string \<Rightarrow> bool" where
  "blank l = (dropWhile is_ws l = [])"

text \<open>
  Modelled from the spec: step 1, "Split into lines preserving empty lines". The text is
  cut at every newline; a text of \<open>n\<close> newlines has \<open>n + 1\<close> lines, so the empty text is
  one empty line and a final newline is followed by an empty last line.
\<close>

fun split_lines :: "string \<Rightarrow> string list" where
  "split_lines [] = [[]]"
| "split_lines (c # cs) =
     (if c = newline then [] # split_lines cs
      else (case split_lines cs of
              [] \<Rightarrow> [[c]]
            | l # ls \<Rightarrow> (c # l) # ls))"

text \<open>The inverse of step 1: the lines joined by single newlines.\<close>

fun join_lines :: "string list \<Rightarrow> string" where
  "join_lines [] = []"
| "join_lines [l] = l"
| "join_lines (l # m # ls) = l @ newline # join_lines (m # ls)"

text \<open>
  Modelled from the spec: step 2, "Compute the minimum leading-whitespace length over all
  lines that are not entirely whitespace. If no such line exists, the minimum is zero."
\<close>

definition indent :: "string \<Rightarrow> nat" where
  "indent l = length (takeWhile is_ws l)"

definition min_indent :: "string list \<Rightarrow> nat" where
  "min_indent ls =
     (case map indent (filter (\<lambda>l. \<not> blank l) ls) of
        [] \<Rightarrow> 0
      | n # ns \<Rightarrow> foldr min ns n)"

text \<open>
  Modelled from the spec: step 3, "Remove that many leading whitespace characters from
  every line (lines shorter than the prefix, i.e. blank lines, are only trimmed to
  empty)". Only whitespace is ever removed: stripping stops at the first other character.
\<close>

fun strip_indent :: "nat \<Rightarrow> string \<Rightarrow> string" where
  "strip_indent 0 l = l"
| "strip_indent (Suc n) [] = []"
| "strip_indent (Suc n) (c # cs) = (if is_ws c then strip_indent n cs else c # cs)"

definition dedent_lines :: "string list \<Rightarrow> string list" where
  "dedent_lines ls = map (strip_indent (min_indent ls)) ls"

text \<open>
  Modelled from the spec: the trimming of blank lines, as the Contract ("strip exactly
  that common prefix from every line, then trim leading and trailing blank lines"), step
  4 ("Remove a single leading blank line and a single trailing blank line if present
  (artifacts of literal formatting); preserve all interior blank lines exactly") and the
  edge case ("a text with no lines or only blank lines normalizes to empty") say it
  together. Every blank line before the first and after the last line that is not blank
  is removed, and no line in between. In a literal written by the convention (a newline
  after the opening quote, the closing quote on a line of its own) these are the single
  leading and the single trailing blank line of step 4; a text of blank lines only
  loses all its lines.
\<close>

definition trim_leading :: "string list \<Rightarrow> string list" where
  "trim_leading ls = dropWhile blank ls"

definition trim_trailing :: "string list \<Rightarrow> string list" where
  "trim_trailing ls = rev (dropWhile blank (rev ls))"

definition normalize_lines :: "string list \<Rightarrow> string list" where
  "normalize_lines ls = trim_trailing (trim_leading (dedent_lines ls))"

text \<open>
  Modelled from the spec: the Indentation Normalizer as a whole, the function the page
  calls as \<open>dedent\<close> (the specification's \<open>normalize\<close>): steps 1 to 4, and the remaining
  lines joined again.
\<close>

definition dedent :: "string \<Rightarrow> string" where
  "dedent x = join_lines (normalize_lines (split_lines x))"

text \<open>
  What a second pass can still see of a text: its characters other than whitespace and
  newlines, in order. The normalizer removes whitespace and whole blank lines only, so it
  leaves this untouched.
\<close>

definition content :: "string \<Rightarrow> string" where
  "content s = filter (\<lambda>c. \<not> is_ws c \<and> c \<noteq> newline) s"

section \<open>The content model\<close>

text \<open>
  The script block of \<^verbatim>\<open>+page.svelte\<close> declares one variable, the array
  \<open>sections\<close>. Each of its objects has a \<open>title\<close>, a \<open>description\<close> and the two
  variants \<open>svelte\<close> and \<open>vue\<close>, each with \<open>code\<close> and \<open>notes\<close>. The template
  tests \<open>notes\<close> for truthiness, so the field is optional here: a missing property
  (\<open>None\<close>) and the empty string are both falsy.
\<close>

record variant =
  code :: string
  "notes" :: "string option"

record entry =
  title :: string
  description :: string
  svelte :: variant
  vue :: variant

definition truthy :: "string option \<Rightarrow> bool" where
  "truthy n = (case n of None \<Rightarrow> False | Some s \<Rightarrow> s \<noteq> [])"

text \<open>The variables of the page's script: the state a render pass runs in.\<close>

record page_state =
  sections :: "entry list"

subsection \<open>The literal data of the page\<close>

text \<open>
  The template literals of the script, character for character (the escapes of the
  source resolved: a backslash before a backquote or a slash stands for that character).
  One line of the source per line; \<open>\<newline>\<close> is the newline character.
\<close>

definition hello_world_description :: string where
  \<open>hello_world_description =
     ''\<newline>'' @
     ''        Buttons that increment a counter and displays the count. Showcases basic reactive state and event handling.\<newline>'' @
     ''      ''\<close>

definition hello_world_svelte_code :: string where
  \<open>hello_world_svelte_code =
     ''\<newline>'' @
     ''          <script>\<newline>'' @
     ''            const count = $state(0)\<newline>'' @
     ''\<newline>'' @
     ''            function increment() {\<newline>'' @
     ''              count += 1\<newline>'' @
     ''            }\<newline>'' @
     ''          </script>\<newline>'' @
     ''\<newline>'' @
     ''          <button onclick={increment}>\<newline>'' @
     ''            Increment with function {count}\<newline>'' @
     ''          </button>\<newline>'' @
     ''          <button onclick={() => count += 1}>\<newline>'' @
     ''            Increment with inline handler {count}\<newline>'' @
     ''          </button>\<newline>'' @
     ''        ''\<close>

definition hello_world_svelte_notes :: string where
  \<open>hello_world_svelte_notes =
     ''\<newline>'' @
     ''          - uses browser-native event names:  `onclick=`\<newline>'' @
     ''          - always uses the variable name directly (no `.value` needed)\<newline>'' @
     ''        ''\<close>

definition hello_world_vue_code :: string where
  \<open>hello_world_vue_code =
     ''\<newline>'' @
     ''          <script setup>\<newline>'' @
     ''            import {ref} from "vue"\<newline>'' @
     ''\<newline>'' @
     ''            const count = ref(0)\<newline>'' @
     ''\<newline>'' @
     ''            function increment() {\<newline>'' @
     ''              count.value += 1  // NOTICE: .value needed in script\<newline>'' @
     ''            }\<newline>'' @
     ''          </script>\<newline>'' @
     ''\<newline>'' @
     ''          <template>\<newline>'' @
     ''            <button @click="increment">\<newline>'' @
     ''              Increment with function {{ count }}\<newline>'' @
     ''            </button>\<newline>'' @
     ''            <button @click="count += 1"> <!-- NOTICE: no .value -->\<newline>'' @
     ''              Increment with inline handler {{ count }}\<newline>'' @
     ''            </button>\<newline>'' @
     ''          </template>\<newline>'' @
     ''        ''\<close>

definition hello_world_vue_notes :: string where
  \<open>hello_world_vue_notes =
     ''\<newline>'' @
     ''          - uses special syntax for event bindings: `@click=`\<newline>'' @
     ''          - use `.value` in script, don't use it in template. **big gotcha**\<newline>'' @
     ''        ''\<close>

definition hello_world :: entry where
  \<open>hello_world =
     \<lparr>title = ''Hello World (Counter)'',
      description = hello_world_description,
      svelte = \<lparr>code = hello_world_svelte_code, notes = Some hello_world_svelte_notes\<rparr>,
      vue = \<lparr>code = hello_world_vue_code, notes = Some hello_world_vue_notes\<rparr>\<rparr>\<close>

definition input_binding_description :: string where
  \<open>input_binding_description = ''Synchronizing state with an input's value. Not much to say here, just a matter of taste.''\<close>

definition input_binding_svelte_code :: string where
  \<open>input_binding_svelte_code =
     ''\<newline>'' @
     ''          <script>\<newline>'' @
     ''            let name = $state('Dmitry')\<newline>'' @
     ''            let checked = $state(true)\<newline>'' @
     ''          </script>\<newline>'' @
     ''\<newline>'' @
     ''          <!-- bind:value for input, textarea, select, etc -->\<newline>'' @
     ''          <input type="text" bind:value={name} />\<newline>'' @
     ''\<newline>'' @
     ''          <!-- checkboxes use bind:checked -->\<newline>'' @
     ''          <input type="checkbox" bind:checked={checked} />\<newline>'' @
     ''        ''\<close>

definition input_binding_svelte_notes :: string where
  \<open>input_binding_svelte_notes = ''- `bind:` syntax''\<close>

definition input_binding_vue_code :: string where
  \<open>input_binding_vue_code =
     ''\<newline>'' @
     ''          <script setup>\<newline>'' @
     ''            import {ref} from "vue"\<newline>'' @
     ''\<newline>'' @
     ''            let name = ref('Dmitry')\<newline>'' @
     ''            let checked = ref(false)\<newline>'' @
     ''          </script>\<newline>'' @
     ''\<newline>'' @
     ''          <template>\<newline>'' @
     ''            <input type="text" v-model="name">\<newline>'' @
     ''            <input type="checkbox" v-model="checked">\<newline>'' @
     ''\<newline>'' @
     ''            <!-- long form: -->\<newline>'' @
     ''            <input type="text" :value="name" @input="event => name = event.target.value">\<newline>'' @
     ''            <input type="checkbox" :value="checked" @input="event => checked = event.target.value">\<newline>'' @
     ''          </template>\<newline>'' @
     ''        ''\<close>

definition input_binding_vue_notes :: string where
  \<open>input_binding_vue_notes =
     ''\<newline>'' @
     ''          - v-model attribute (personally not a fan)\<newline>'' @
     ''        ''\<close>

definition input_binding :: entry where
  \<open>input_binding =
     \<lparr>title = ''Input Binding'',
      description = input_binding_description,
      svelte = \<lparr>code = input_binding_svelte_code, notes = Some input_binding_svelte_notes\<rparr>,
      vue = \<lparr>code = input_binding_vue_code, notes = Some input_binding_vue_notes\<rparr>\<rparr>\<close>

definition control_flow_description :: string where
  \<open>control_flow_description = ''Ifs and loops''\<close>

definition control_flow_svelte_code :: string where
  \<open>control_flow_svelte_code =
     ''\<newline>'' @
     ''          <!-- if statement -->\<newline>'' @
     ''          {#if condition}\<newline>'' @
     ''            <p>it's true</p>\<newline>'' @
     ''          {:else if otherCondition}\<newline>'' @
     ''            <p>it's something else</p>\<newline>'' @
     ''          {:else}\<newline>'' @
     ''            <p>it's nothing</p>\<newline>'' @
     ''          {/if}\<newline>'' @
     ''\<newline>'' @
     ''          <!-- each loop -->\<newline>'' @
     ''          {#each items as item}\<newline>'' @
     ''            <p>{item}</p>\<newline>'' @
     ''          {:else}\<newline>'' @
     ''            <p>there are no items</p>\<newline>'' @
     ''          {/each}\<newline>'' @
     ''        ''\<close>

definition control_flow_svelte_notes :: string where
  \<open>control_flow_svelte_notes =
     ''\<newline>'' @
     ''          - special syntax for control flow\<newline>'' @
     ''          - small learning curve but at least it's consistent: # to start, : in the middle, / to end\<newline>'' @
     ''          - control flow can't get lost visually - it's always clear\<newline>'' @
     ''        ''\<close>

definition control_flow_vue_code :: string where
  \<open>control_flow_vue_code =
     ''\<newline>'' @
     ''          <!-- if statement -->\<newline>'' @
     ''          <p v-if="condition">it's true</p>\<newline>'' @
     ''          <p v-else-if="otherCondition">it's something else</p>\<newline>'' @
     ''          <p v-else="otherCondition">it's nothing</p>\<newline>'' @
     ''\<newline>'' @
     ''          <!-- for loop -->\<newline>'' @
     ''          <p v-for="item in items">{{ item }}</p>\<newline>'' @
     ''\<newline>'' @
     ''          <!-- empty check. there is no "else" so have to wrap in v-if -->\<newline>'' @
     ''          <div v-if="items.length > 0">\<newline>'' @
     ''            <p v-for="item in items">{{ item }}</p>\<newline>'' @
     ''          </div>\<newline>'' @
     ''          <div v-else>\<newline>'' @
     ''            <p>there are no items</p>\<newline>'' @
     ''          </div>\<newline>'' @
     ''        ''\<close>

definition control_flow_vue_notes :: string where
  \<open>control_flow_vue_notes =
     ''\<newline>'' @
     ''          - special attributes v-if, v-for, etc\<newline>'' @
     ''          - control flow can get lost in a sea of other attributes on the same element\<newline>'' @
     ''        ''\<close>

definition control_flow :: entry where
  \<open>control_flow =
     \<lparr>title = ''Control Flow'',
      description = control_flow_description,
      svelte = \<lparr>code = control_flow_svelte_code, notes = Some control_flow_svelte_notes\<rparr>,
      vue = \<lparr>code = control_flow_vue_code, notes = Some control_flow_vue_notes\<rparr>\<rparr>\<close>

definition deep_state_description :: string where
  \<open>deep_state_description = ''Reactivity with objects (or arrays)''\<close>

definition deep_state_svelte_code :: string where
  \<open>deep_state_svelte_code =
     ''\<newline>'' @
     ''          <script>\<newline>'' @
     ''            let item = $state({id: 1, name: "foo"})\<newline>'' @
     ''            item.name = "bar";\<newline>'' @
     ''          </script>\<newline>'' @
     ''\<newline>'' @
     ''          <p>{item.id}: {item.name}</p>\<newline>'' @
     ''        ''\<close>

definition deep_state_svelte_notes :: string where
  \<open>deep_state_svelte_notes = ''- $state is used for both primives and objects''\<close>

definition deep_state_vue_code :: string where
  \<open>deep_state_vue_code =
     ''\<newline>'' @
     ''          <script setup>\<newline>'' @
     ''            import {reactive} from "vue"\<newline>'' @
     ''\<newline>'' @
     ''            let item = reactive({id: 1, name: "foo"})\<newline>'' @
     ''            item.value.name = "bar";\<newline>'' @
     ''          </script>\<newline>'' @
     ''\<newline>'' @
     ''          <template>\<newline>'' @
     ''            <p>{{ item.id }}: {{ item.name }}</p>\<newline>'' @
     ''          </template>\<newline>'' @
     ''        ''\<close>

definition deep_state_vue_notes :: string where
  \<open>deep_state_vue_notes =
     ''\<newline>'' @
     ''        - for objects, use `reactive()`\<newline>'' @
     ''        - for primitive values (strings, numbers), use `ref()`\<newline>'' @
     ''        - have to remember to use ref or reactive - **big gotcha**\<newline>'' @
     ''        ''\<close>

definition deep_state :: entry where
  \<open>deep_state =
     \<lparr>title = ''Deep State Reactivity / Object Mutability'',
      description = deep_state_description,
      svelte = \<lparr>code = deep_state_svelte_code, notes = Some deep_state_svelte_notes\<rparr>,
      vue = \<lparr>code = deep_state_vue_code, notes = Some deep_state_vue_notes\<rparr>\<rparr>\<close>

definition derived_state_description :: string where
  \<open>derived_state_description = ''Deriving state from other state with calculations. Not too different between Svelte and Vue, so matter of taste.''\<close>

definition derived_state_svelte_code :: string where
  \<open>derived_state_svelte_code =
     ''\<newline>'' @
     ''          <script>\<newline>'' @
     ''            let numbers = $state([1, 2, 3, 4])\<newline>'' @
     ''            let total = $derived(numbers.reduce((acc, n) => acc + n, 0))\<newline>'' @
     ''            // total is 5\<newline>'' @
     ''            numbers.push(5);\<newline>'' @
     ''            // total is now 10\<newline>'' @
     ''          </script>\<newline>'' @
     ''\<newline>'' @
     ''          <p>The total is: {total}</p>\<newline>'' @
     ''        ''\<close>

definition derived_state_svelte_notes :: string where
  \<open>derived_state_svelte_notes =
     ''\<newline>'' @
     ''          - don't need callback function in $derived (you can if needed)\<newline>'' @
     ''        ''\<close>

definition derived_state_vue_code :: string where
  \<open>derived_state_vue_code =
     ''\<newline>'' @
     ''          <script setup>\<newline>'' @
     ''            import {reactive, computed} from "vue"\<newline>'' @
     ''            \<newline>'' @
     ''            const numbers = reactive([1, 2, 3, 4])\<newline>'' @
     ''            const total = computed(() => numbers.reduce((acc, n) => acc + n, 0))\<newline>'' @
     ''            // total is 5\<newline>'' @
     ''            numbers.value.push(5);\<newline>'' @
     ''            // total is now 10\<newline>'' @
     ''          </script>\<newline>'' @
     ''\<newline>'' @
     ''          <template>\<newline>'' @
     ''            <p>The total is: {{ total }}</p>\<newline>'' @
     ''          </template>\<newline>'' @
     ''        ''\<close>

definition derived_state_vue_notes :: string where
  \<open>derived_state_vue_notes =
     ''\<newline>'' @
     ''          - computed() takes a callback function\<newline>'' @
     ''        ''\<close>

definition derived_state :: entry where
  \<open>derived_state =
     \<lparr>title = ''Derived state'',
      description = derived_state_description,
      svelte = \<lparr>code = derived_state_svelte_code, notes = Some derived_state_svelte_notes\<rparr>,
      vue = \<lparr>code = derived_state_vue_code, notes = Some derived_state_vue_notes\<rparr>\<rparr>\<close>

definition components_props_description :: string where
  \<open>components_props_description = ''Passing values to custom components.''\<close>

definition components_props_svelte_code :: string where
  \<open>components_props_svelte_code =
     ''\<newline>'' @
     ''          <!-- Person.svelte -->\<newline>'' @
     ''          <script>\<newline>'' @
     ''            let {name} = $props()\<newline>'' @
     ''          </script>\<newline>'' @
     ''\<newline>'' @
     ''          <p>My name is {name}</p>\<newline>'' @
     ''\<newline>'' @
     ''          <!-- usage -->\<newline>'' @
     ''          <script>\<newline>'' @
     ''            import Person from "./Person.svelte"\<newline>'' @
     ''\<newline>'' @
     ''            let name = "Dmitry"\<newline>'' @
     ''          </script>\<newline>'' @
     ''\<newline>'' @
     ''          <Person name={name} />\<newline>'' @
     ''          <!-- or shorthand: -->\<newline>'' @
     ''          <Person {name} />\<newline>'' @
     ''        ''\<close>

definition components_props_svelte_notes :: string where
  \<open>components_props_svelte_notes =
     ''\<newline>'' @
     ''          - declare props with `$props()`\<newline>'' @
     ''          - pass in with `name={name}` or `{name}` shorthand if prop name and variable name are the same\<newline>'' @
     ''        ''\<close>

definition components_props_vue_code :: string where
  \<open>components_props_vue_code =
     ''\<newline>'' @
     ''          <!-- Person.vue -->\<newline>'' @
     ''          <script setup>\<newline>'' @
     ''            const {name} = defineProps(['name'])\<newline>'' @
     ''          </script>\<newline>'' @
     ''\<newline>'' @
     ''          <template>\<newline>'' @
     ''            <p>My name is {{ name }}</p>\<newline>'' @
     ''          </template>\<newline>'' @
     ''\<newline>'' @
     ''          <!-- usage: -->\<newline>'' @
     ''          <script setup>\<newline>'' @
     ''            import Person from "./Person.vue"\<newline>'' @
     ''\<newline>'' @
     ''            let name = "Dmitry"\<newline>'' @
     ''          </script>\<newline>'' @
     ''\<newline>'' @
     ''          <template>\<newline>'' @
     ''            <Person :name="name" />\<newline>'' @
     ''            <!-- there is no shorthand -->\<newline>'' @
     ''          </template>\<newline>'' @
     ''        ''\<close>

definition components_props_vue_notes :: string where
  \<open>components_props_vue_notes =
     ''\<newline>'' @
     ''          - declare props with `defineProps()`\<newline>'' @
     ''        ''\<close>

definition components_props :: entry where
  \<open>components_props =
     \<lparr>title = ''Components Props'',
      description = components_props_description,
      svelte = \<lparr>code = components_props_svelte_code, notes = Some components_props_svelte_notes\<rparr>,
      vue = \<lparr>code = components_props_vue_code, notes = Some components_props_vue_notes\<rparr>\<rparr>\<close>

definition async_promises_description :: string where
  \<open>async_promises_description = ''Waiting for a promise to resolve, displaying loading state, and handling errors.''\<close>

definition async_promises_svelte_code :: string where
  \<open>async_promises_svelte_code =
     ''\<newline>'' @
     ''          <script>\<newline>'' @
     ''            let promise = fetch("...")\<newline>'' @
     ''          </script>\<newline>'' @
     ''\<newline>'' @
     ''          {#await promise}\<newline>'' @
     ''            <p>Loading...</p>\<newline>'' @
     ''          {:then data}\<newline>'' @
     ''            <p>{data}</p>\<newline>'' @
     ''          {:catch error}\<newline>'' @
     ''            <p>{error}</p>\<newline>'' @
     ''          {/await}\<newline>'' @
     ''        ''\<close>

definition async_promises_svelte_notes :: string where
  \<open>async_promises_svelte_notes =
     ''\<newline>'' @
     ''          - built-in await block which captures data, error, and loading states\<newline>'' @
     ''        ''\<close>

definition async_promises_vue_code :: string where
  \<open>async_promises_vue_code =
     ''\<newline>'' @
     ''          <script setup>\<newline>'' @
     ''            import {ref} from "vue"\<newline>'' @
     ''\<newline>'' @
     ''            let loading = ref(true)\<newline>'' @
     ''            let data = ref(null)\<newline>'' @
     ''            let error = ref(null)\<newline>'' @
     ''            let promise = fetch("...")\<newline>'' @
     ''              .then(d => data.value = d)\<newline>'' @
     ''              .catch(e => error.value = e)\<newline>'' @
     ''              .finally(() => loading.value = false)\<newline>'' @
     ''          </script>\<newline>'' @
     ''\<newline>'' @
     ''          <p v-if="loading">Loading...</p>\<newline>'' @
     ''          <p v-if="data">{{ data }}</p>\<newline>'' @
     ''          <p v-if="error">{{ error }}</p>\<newline>'' @
     ''        ''\<close>

definition async_promises_vue_notes :: string where
  \<open>async_promises_vue_notes =
     ''\<newline>'' @
     ''          - Vue has no built-in promise support in templates\<newline>'' @
     ''          - Have to build something custom with refs\<newline>'' @
     ''        ''\<close>

definition async_promises :: entry where
  \<open>async_promises =
     \<lparr>title = ''Async (Promises)'',
      description = async_promises_description,
      svelte = \<lparr>code = async_promises_svelte_code, notes = Some async_promises_svelte_notes\<rparr>,
      vue = \<lparr>code = async_promises_vue_code, notes = Some async_promises_vue_notes\<rparr>\<rparr>\<close>

text \<open>The state after the script block has run.\<close>

definition script :: page_state where
  "script =
     \<lparr>sections = [hello_world, input_binding, control_flow, deep_state, derived_state,
                  components_props, async_promises]\<rparr>"

text \<open>
  The entry of the specification's end-to-end example (section 8): variant A without
  notes, variant B with notes.
\<close>

definition example_entry :: entry where
  "example_entry =
     \<lparr>title = ''X'',
      description = ''\<newline>  Hi\<newline>'',
      svelte = \<lparr>code = ''\<newline>  a=1\<newline>'', notes = None\<rparr>,
      vue = \<lparr>code = ''\<newline>  b=2\<newline>'', notes = Some ''\<newline>  **note**\<newline>''\<rparr>\<rparr>"

section \<open>The view composer\<close>

text \<open>
  The markup of the page is a tree of elements and text. The three components the page
  imports (\<open>Markdown\<close>, \<open>HighlightSvelte\<close>, \<open>HighlightAuto\<close>) are collaborators: each
  receives one string property (\<open>md\<close> or \<open>code\<close>) and either returns its markup or
  throws. A component gets the string only, never the objects of \<open>sections\<close>.
\<close>

datatype node =
  Element string "(string \<times> string) list" "node list"
| Text string

datatype error = Thrown string

record components =
  Markdown :: "string \<Rightarrow> error + node"
  HighlightSvelte :: "string \<Rightarrow> error + node"
  HighlightAuto :: "string \<Rightarrow> error + node"

text \<open>Collaborators that keep their contract (sections 4.2 and 4.3): they always return.\<close>

definition reliable ::
  "(string \<Rightarrow> node) \<Rightarrow> (string \<Rightarrow> node) \<Rightarrow> (string \<Rightarrow> node) \<Rightarrow> components" where
  "reliable md hs ha =
     \<lparr>Markdown = (\<lambda>x. Inr (md x)),
      HighlightSvelte = (\<lambda>x. Inr (hs x)),
      HighlightAuto = (\<lambda>x. Inr (ha x))\<rparr>"

text \<open>
  A render pass is a computation over the page's state that ends with markup or with the
  exception a component threw. The template has no \<open>try\<close> and no error boundary, so a
  thrown exception ends every enclosing block: \<open>seq\<close> passes it on.
\<close>

type_synonym 'a render = "page_state \<Rightarrow> (error + 'a) \<times> page_state"

definition emit :: "'a \<Rightarrow> 'a render" where
  "emit v = (\<lambda>st. (Inr v, st))"

definition seq :: "'a render \<Rightarrow> ('a \<Rightarrow> 'b render) \<Rightarrow> 'b render" where
  "seq m f = (\<lambda>st. case m st of
                      (Inl e, st') \<Rightarrow> (Inl e, st')
                    | (Inr v, st') \<Rightarrow> f v st')"

text \<open>Reading a variable of the script.\<close>

definition read :: "(page_state \<Rightarrow> 'a) \<Rightarrow> 'a render" where
  "read var = (\<lambda>st. (Inr (var st), st))"

text \<open>Instantiating a component with its string property.\<close>

definition call :: "(string \<Rightarrow> error + node) \<Rightarrow> string \<Rightarrow> node render" where
  "call component prop = (\<lambda>st. (component prop, st))"

subsection \<open>The static markup of the template\<close>

text \<open>
  Lines 349 to 372: the \<open>section\<close> element with its heading, the rendered description
  and the \<open>side-by-side\<close> grid of four \<open>div\<close> cells. Whitespace between the elements
  is left out.
\<close>

definition code_cell :: "string \<Rightarrow> node \<Rightarrow> node" where
  "code_cell label marked = Element ''div'' [] [Element ''b'' [] [Text label], marked]"

definition notes_cell :: "node list \<Rightarrow> node" where
  "notes_cell rendered = Element ''div'' [] rendered"

definition section_markup :: "string \<Rightarrow> node \<Rightarrow> node \<Rightarrow> node \<Rightarrow> node \<Rightarrow> node \<Rightarrow> node" where
  "section_markup heading desc code_a code_b notes_a notes_b =
     Element ''section'' []
       [Element ''h2'' [(''class'', ''section-header'')] [Text heading],
        desc,
        Element ''div'' [(''class'', ''side-by-side'')]
          [code_cell ''Svelte'' code_a, code_cell ''Vue'' code_b, notes_a, notes_b]]"

definition main_markup :: "node list \<Rightarrow> node" where
  "main_markup rendered = Element ''main'' [] (Element ''h1'' [] [Text ''Svelte vs Vue''] # rendered)"

subsection \<open>The dynamic part of the template\<close>

text \<open>
  Lines 362 to 364 and 367 to 369: the \<open>if\<close> block of a notes cell. Falsy notes leave the
  cell empty.
\<close>

definition notes_slot :: "components \<Rightarrow> string option \<Rightarrow> node render" where
  "notes_slot c n =
     (case n of
        None \<Rightarrow> emit (notes_cell [])
      | Some s \<Rightarrow>
          if s \<noteq> [] then seq (call (Markdown c) (dedent s)) (\<lambda>m. emit (notes_cell [m]))
          else emit (notes_cell []))"

text \<open>
  Lines 349 to 372, the body of the \<open>each\<close> block for one object of \<open>sections\<close>. The
  components are instantiated in the order of the template.
\<close>

definition render_section :: "components \<Rightarrow> entry \<Rightarrow> node render" where
  "render_section c s =
     seq (call (Markdown c) (dedent (description s))) (\<lambda>desc.
     seq (call (HighlightSvelte c) (dedent (code (svelte s)))) (\<lambda>code_a.
     seq (call (HighlightAuto c) (dedent (code (vue s)))) (\<lambda>code_b.
     seq (notes_slot c (notes (svelte s))) (\<lambda>notes_a.
     seq (notes_slot c (notes (vue s))) (\<lambda>notes_b.
     emit (section_markup (title s) desc code_a code_b notes_a notes_b))))))"

text \<open>Line 348: the \<open>each\<close> block renders its body for every item, in order.\<close>

fun each :: "('a \<Rightarrow> node render) \<Rightarrow> 'a list \<Rightarrow> node list render" where
  "each body [] = emit []"
| "each body (x # xs) = seq (body x) (\<lambda>n. seq (each body xs) (\<lambda>ns. emit (n # ns)))"

text \<open>
  Lines 346 to 374: the \<open>main\<close> element. The \<open>head\<close> block before it (lines 342 to
  344) inserts the style sheet of the highlighter; it reads nothing of \<open>sections\<close> and is
  left out.
\<close>

definition render_main :: "components \<Rightarrow> node render" where
  "render_main c =
     seq (read sections) (\<lambda>ss.
     seq (each (render_section c) ss) (\<lambda>rendered.
     emit (main_markup rendered)))"

subsection \<open>Reading the rendered page\<close>

text \<open>
  The rendered page is read by position, as the template lays it out: the children of
  \<open>main\<close> after the \<open>h1\<close> are the sections; the first child of a section is its heading
  and its third child the grid; the first two cells of the grid hold the code, the cells
  after them the notes.
\<close>

fun children :: "node \<Rightarrow> node list" where
  "children (Element t attrs cs) = cs"
| "children (Text s) = []"

definition rendered_sections :: "node \<Rightarrow> node list" where
  "rendered_sections page = drop 1 (children page)"

definition rendered_title :: "node \<Rightarrow> string" where
  "rendered_title sec =
     (case children sec of
        Element t attrs [Text heading] # rest \<Rightarrow> heading
      | _ \<Rightarrow> [])"

definition grid :: "node \<Rightarrow> node list" where
  "grid sec = (case children sec of h # d # g # rest \<Rightarrow> children g | _ \<Rightarrow> [])"

definition code_cells :: "node \<Rightarrow> node list" where
  "code_cells sec = take 2 (grid sec)"

definition notes_slots :: "node \<Rightarrow> node list" where
  "notes_slots sec = drop 2 (grid sec)"

text \<open>The highlighted code inside a code cell: what follows the label.\<close>

definition highlighted :: "node \<Rightarrow> node list" where
  "highlighted cell = drop 1 (children cell)"

subsection \<open>What the cells are compared with\<close>

text \<open>
  The component instances a notes cell asks for, with their outcome: none for falsy
  notes, one \<open>Markdown\<close> of the normalized notes otherwise.
\<close>

definition notes_calls :: "components \<Rightarrow> string option \<Rightarrow> (error + node) list" where
  "notes_calls c n =
     (case n of None \<Rightarrow> [] | Some s \<Rightarrow> if s \<noteq> [] then [Markdown c (dedent s)] else [])"

text \<open>The same for collaborators that always return: the markup inside the cell.\<close>

definition rendered_notes :: "(string \<Rightarrow> node) \<Rightarrow> string option \<Rightarrow> node list" where
  "rendered_notes md n =
     (case n of None \<Rightarrow> [] | Some s \<Rightarrow> if s \<noteq> [] then [md (dedent s)] else [])"

subsection \<open>Collaborators and entries for examples\<close>

text \<open>
  Collaborators that wrap their string in an element named after the component, so that
  the markup shows which component produced it.
\<close>

definition labelled :: components where
  "labelled =
     reliable (\<lambda>x. Element ''Markdown'' [] [Text x])
              (\<lambda>x. Element ''HighlightSvelte'' [] [Text x])
              (\<lambda>x. Element ''HighlightAuto'' [] [Text x])"

text \<open>A Svelte highlighter that throws on one input, the code \<open>a=1\<close>, and returns on all others.\<close>

definition picky :: components where
  "picky =
     \<lparr>Markdown = (\<lambda>x. Inr (Text x)),
      HighlightSvelte = (\<lambda>x. if x = ''a=1'' then Inl (Thrown ''HighlightSvelte'') else Inr (Text x)),
      HighlightAuto = (\<lambda>x. Inr (Text x))\<rparr>"

text \<open>An entry like the example entry whose Svelte code is not \<open>a=1\<close>.\<close>

definition sound_entry :: entry where
  "sound_entry =
     example_entry\<lparr>title := ''Y'', svelte := \<lparr>code = ''\<newline>  ok\<newline>'', notes = None\<rparr>\<rparr>"

section \<open>Properties of the normalizer\<close>

subsection \<open>Evaluation\<close>

lemma strip_indent_numeral [simp]:
  "strip_indent (numeral k) l = strip_indent (Suc (pred_numeral k)) l"
  by (simp add: numeral_eq_Suc)

lemmas dedent_eval =
  dedent_def normalize_lines_def trim_trailing_def trim_leading_def dedent_lines_def
  min_indent_def indent_def blank_def is_ws_def newline_def

subsection \<open>Lines\<close>

lemma split_lines_nonempty [simp]: "split_lines x \<noteq> []"
  by (induction x) (auto split: list.splits)


lemma join_lines_Cons: "ls \<noteq> [] \<Longrightarrow> join_lines (l # ls) = l @ newline # join_lines ls"
  by (cases ls) auto

lemma join_lines_push: "join_lines ((c # l) # ls) = c # join_lines (l # ls)"
  by (cases ls) auto

lemma join_split [simp]: "join_lines (split_lines x) = x"
proof (induction x)
  case Nil
  show ?case by simp
next
  case (Cons c cs)
  obtain l ls where s: "split_lines cs = l # ls"
    by (cases "split_lines cs") auto
  with Cons have "join_lines (l # ls) = cs" by simp
  with s show ?case by (simp add: join_lines_push join_lines_Cons)
qed




lemma blank_strip [simp]: "blank (strip_indent n l) = blank l"
  by (induction n l rule: strip_indent.induct) (auto simp: blank_def)



lemma foldr_min_le: "m \<in> set (n # ns) \<Longrightarrow> foldr min ns (n::nat) \<le> m"
  by (induction ns) (auto simp: min_def)


lemma min_indent_le: "l \<in> set ls \<Longrightarrow> \<not> blank l \<Longrightarrow> min_indent ls \<le> indent l"
proof -
  assume a: "l \<in> set ls" "\<not> blank l"
  then have m: "indent l \<in> set (map indent (filter (\<lambda>l. \<not> blank l) ls))" by auto
  show ?thesis
  proof (cases "map indent (filter (\<lambda>l. \<not> blank l) ls)")
    case Nil
    with m show ?thesis by simp
  next
    case (Cons n ns)
    with m have "indent l \<in> set (n # ns)" by simp
    then have "foldr min ns n \<le> indent l" by (rule foldr_min_le)
    with Cons show ?thesis by (simp add: min_indent_def)
  qed
qed



subsection \<open>Trimming\<close>

lemma set_trim_leading: "set (trim_leading ls) \<subseteq> set ls"
  by (auto simp: trim_leading_def dest: set_dropWhileD)

lemma set_trim_trailing: "set (trim_trailing ls) \<subseteq> set ls"
  by (auto simp: trim_trailing_def dest: set_dropWhileD)






lemma hd_trim_leading: "trim_leading ls \<noteq> [] \<Longrightarrow> \<not> blank (hd (trim_leading ls))"
  by (simp add: trim_leading_def hd_dropWhile)

lemma last_trim_trailing: "trim_trailing ls \<noteq> [] \<Longrightarrow> \<not> blank (last (trim_trailing ls))"
  by (simp add: trim_trailing_def last_rev hd_dropWhile)

text \<open>What \<open>trim_trailing\<close> removes is a run of blank lines at the end.\<close>

lemma trim_trailing_prefix: "ls = trim_trailing ls @ rev (takeWhile blank (rev ls))"
proof -
  have "rev (rev ls) = rev (takeWhile blank (rev ls) @ dropWhile blank (rev ls))"
    by (simp only: takeWhile_dropWhile_id)
  then show ?thesis unfolding trim_trailing_def by (simp only: rev_append rev_rev_ident)
qed

lemma hd_trim_trailing: "trim_trailing ls \<noteq> [] \<Longrightarrow> hd (trim_trailing ls) = hd ls"
proof -
  assume ne: "trim_trailing ls \<noteq> []"
  have "hd ls = hd (trim_trailing ls @ rev (takeWhile blank (rev ls)))"
    using trim_trailing_prefix [of ls] by simp
  with ne show ?thesis by simp
qed

lemma trims_boundary:
  assumes "trim_trailing (trim_leading ls) \<noteq> []"
  shows "\<not> blank (hd (trim_trailing (trim_leading ls)))
       \<and> \<not> blank (last (trim_trailing (trim_leading ls)))"
proof -
  from assms have "trim_leading ls \<noteq> []" by (auto simp: trim_trailing_def)
  then have "\<not> blank (hd (trim_leading ls))" by (rule hd_trim_leading)
  with assms show ?thesis by (simp add: hd_trim_trailing last_trim_trailing)
qed


text \<open>Trimming looks at blankness only, which removing indentation does not change.\<close>

lemma trims_map:
  assumes "\<And>l. blank (f l) = blank l"
  shows "trim_trailing (trim_leading (map f ls)) = map f (trim_trailing (trim_leading ls))"
proof -
  have b: "blank \<circ> f = blank" using assms by (simp add: fun_eq_iff)
  show ?thesis
    by (simp add: trim_leading_def trim_trailing_def dropWhile_map rev_map b)
qed

lemma trim_leading_drop: "trim_leading ls = drop (length (takeWhile blank ls)) ls"
  by (simp add: trim_leading_def dropWhile_eq_drop)

lemma trim_trailing_take:
  "trim_trailing ls = take (length ls - length (takeWhile blank (rev ls))) ls"
  by (simp add: trim_trailing_def dropWhile_eq_drop rev_drop)

subsection \<open>The normalized lines\<close>

lemma normalize_lines_map:
  "normalize_lines ls = map (strip_indent (min_indent ls)) (trim_trailing (trim_leading ls))"
  by (simp add: normalize_lines_def dedent_lines_def trims_map)

lemma set_normalize_lines: "set (normalize_lines ls) \<subseteq> strip_indent (min_indent ls) ` set ls"
proof -
  have "set (normalize_lines ls) \<subseteq> set (dedent_lines ls)"
    unfolding normalize_lines_def using set_trim_trailing set_trim_leading by blast
  then show ?thesis by (simp add: dedent_lines_def)
qed






lemma dedent_empty: "dedent [] = []"
  by (simp add: dedent_eval)

lemma normalize_lines_boundary:
  "normalize_lines ls \<noteq> [] \<Longrightarrow>
     \<not> blank (hd (normalize_lines ls)) \<and> \<not> blank (last (normalize_lines ls))"
  unfolding normalize_lines_def by (rule trims_boundary)


lemma normalize_lines_all_blank:
  assumes "list_all blank ls"
  shows "normalize_lines ls = []"
proof -
  from assms have "\<forall>l \<in> set (dedent_lines ls). blank l"
    by (simp add: dedent_lines_def list_all_iff)
  then have "trim_leading (dedent_lines ls) = []" by (simp add: trim_leading_def)
  then show ?thesis by (simp add: normalize_lines_def trim_trailing_def)
qed

text \<open>
  Removing the common indentation from a line is dropping that many characters: the line
  is blank, or it has at least that much indentation.
\<close>

lemma strip_indent_drop: "blank l \<or> n \<le> indent l \<Longrightarrow> strip_indent n l = drop n l"
  by (induction n l rule: strip_indent.induct) (auto simp: blank_def indent_def)

lemma common_indent: "l \<in> set ls \<Longrightarrow> blank l \<or> min_indent ls \<le> indent l"
  using min_indent_le by blast

lemma normalize_lines_shape:
  "normalize_lines ls =
     map (drop (min_indent ls))
       (take (length ls - length (takeWhile blank ls)
                - length (takeWhile blank (rev (drop (length (takeWhile blank ls)) ls))))
          (drop (length (takeWhile blank ls)) ls))"
proof -
  let ?a = "length (takeWhile blank ls)"
  let ?core = "trim_trailing (trim_leading ls)"
  have core: "?core = take (length ls - ?a - length (takeWhile blank (rev (drop ?a ls)))) (drop ?a ls)"
    by (simp add: trim_trailing_take trim_leading_drop [symmetric]) (simp add: trim_leading_drop)
  have "set ?core \<subseteq> set ls" using set_trim_trailing set_trim_leading by blast
  then have "map (strip_indent (min_indent ls)) ?core = map (drop (min_indent ls)) ?core"
    by (intro map_cong refl strip_indent_drop common_indent) blast
  with core show ?thesis by (simp add: normalize_lines_map)
qed

lemma core_lines:
  fixes ls :: "string list"
  defines "a \<equiv> length (takeWhile blank ls)"
  defines "b \<equiv> length (takeWhile blank (rev (drop a ls)))"
  shows "normalize_lines ls = map (strip_indent (min_indent ls)) (take (length ls - a - b) (drop a ls))"
proof -
  have "trim_trailing (trim_leading ls) = take (length ls - a - b) (drop a ls)"
    unfolding a_def b_def trim_trailing_take [of "trim_leading ls"]
    by (simp add: trim_leading_drop)
  then show ?thesis by (simp add: normalize_lines_map)
qed

lemma leading_lines_blank:
  fixes ls :: "string list"
  shows "list_all blank (take (length (takeWhile blank ls)) ls)"
proof -
  have "take (length (takeWhile blank ls)) ls = takeWhile blank ls"
    by (rule takeWhile_eq_take [symmetric])
  moreover have "list_all blank (takeWhile blank ls)"
    by (auto simp: list_all_iff dest: set_takeWhileD)
  ultimately show ?thesis by simp
qed

lemma trailing_lines_blank:
  fixes r :: "string list"
  shows "list_all blank (drop (length r - length (takeWhile blank (rev r))) r)"
proof -
  have "drop (length r - length (takeWhile blank (rev r))) r
        = rev (take (length (takeWhile blank (rev r))) (rev r))"
    by (simp add: rev_take)
  also have "\<dots> = rev (takeWhile blank (rev r))"
    by (simp only: takeWhile_eq_take [symmetric])
  finally show ?thesis by (auto simp: list_all_iff dest: set_takeWhileD)
qed

subsection \<open>What the normalizer keeps\<close>

lemma content_join_lines: "content (join_lines ls) = concat (map content ls)"
  by (induction ls rule: join_lines.induct) (auto simp: content_def)

lemma content_strip_indent [simp]: "content (strip_indent n l) = content l"
  by (induction n l rule: strip_indent.induct) (auto simp: content_def)

lemma content_blank: "blank l \<Longrightarrow> content l = []"
  by (auto simp: blank_def content_def filter_empty_conv)

lemma content_blank_lines: "list_all blank bs \<Longrightarrow> concat (map content bs) = []"
  by (induction bs) (auto simp: content_blank)

lemma content_trim_leading: "concat (map content (trim_leading ls)) = concat (map content ls)"
  by (induction ls) (auto simp: trim_leading_def content_blank)

lemma content_trim_trailing: "concat (map content (trim_trailing ls)) = concat (map content ls)"
proof -
  let ?bs = "rev (takeWhile blank (rev ls))"
  have "list_all blank ?bs" by (auto simp: list_all_iff dest: set_takeWhileD)
  then have "concat (map content ?bs) = []" by (rule content_blank_lines)
  then have "concat (map content (trim_trailing ls @ ?bs)) = concat (map content (trim_trailing ls))"
    by (simp only: map_append concat_append) simp
  then show ?thesis by (simp only: trim_trailing_prefix [symmetric])
qed

lemma content_dedent: "content (dedent x) = content x"
proof -
  have "content (dedent x) = concat (map content (dedent_lines (split_lines x)))"
    by (simp add: dedent_def normalize_lines_def content_join_lines content_trim_trailing
        content_trim_leading)
  also have "\<dots> = concat (map content (split_lines x))"
    by (simp add: dedent_lines_def comp_def)
  also have "\<dots> = content (join_lines (split_lines x))"
    by (simp only: content_join_lines)
  finally show ?thesis by simp
qed

section \<open>Claims about the normalizer\<close>


text \<open>
  C2 (as the specification states it). Exactly one leading and one trailing blank line
  are removed, and all interior blank lines are left unchanged. Neither half holds of
  every text: an interior line of four spaces between lines indented by two becomes a
  line of two spaces, and of two leading and three trailing blank lines none remains.
\<close>

theorem dedent_interior_blank_line_rewritten:
  "split_lines ''  a\<newline>    \<newline>  b'' = [''  a'', ''    '', ''  b'']
   \<and> blank ''    ''
   \<and> split_lines (dedent ''  a\<newline>    \<newline>  b'') = [''a'', ''  '', ''b'']
   \<and> dedent ''\<newline>\<newline>foo\<newline>\<newline>\<newline>'' = ''foo''"
  by (simp add: dedent_eval)

text \<open>
  C2 (amended). The normalizer removes the blank lines before the first and after the
  last line that is not blank (\<open>a\<close> leading and \<open>b\<close> trailing ones; one each in a
  literal written by the convention) and no line in between: line \<open>j\<close> of the result is
  line \<open>a + j\<close> of the text without its first characters, as many as the common
  indentation has. So an interior blank line stays where it is and stays blank; an empty
  line is preserved verbatim, and a line of whitespace only loses the common indentation
  like every other line. The result, when it has a line, begins and ends with a line
  that is not blank.
\<close>

theorem dedent_boundary_blank_lines:
  fixes x :: string
  defines "ls \<equiv> split_lines x"
  defines "a \<equiv> length (takeWhile blank ls)"
  defines "b \<equiv> length (takeWhile blank (rev (drop a ls)))"
  shows "dedent x = join_lines (normalize_lines ls)
    \<and> length (normalize_lines ls) = length ls - a - b
    \<and> list_all blank (take a ls)
    \<and> list_all blank (drop (length ls - b) ls)
    \<and> (\<forall>j < length (normalize_lines ls).
           normalize_lines ls ! j = drop (min_indent ls) (ls ! (a + j))
           \<and> blank (normalize_lines ls ! j) = blank (ls ! (a + j))
           \<and> (ls ! (a + j) = [] \<longrightarrow> normalize_lines ls ! j = []))
    \<and> (normalize_lines ls = []
        \<or> (\<not> blank (hd (normalize_lines ls)) \<and> \<not> blank (last (normalize_lines ls))))"
proof -
  let ?core = "take (length ls - a - b) (drop a ls)"
  have shape: "normalize_lines ls = map (drop (min_indent ls)) ?core"
    unfolding a_def b_def by (rule normalize_lines_shape)
  have strip: "normalize_lines ls = map (strip_indent (min_indent ls)) ?core"
    unfolding a_def b_def by (rule core_lines)
  have len: "length (normalize_lines ls) = length ls - a - b"
    by (simp add: shape)
  have lead: "list_all blank (take a ls)"
    unfolding a_def by (rule leading_lines_blank)
  have trail: "list_all blank (drop (length ls - b) ls)"
  proof -
    have t: "list_all blank (drop (length (drop a ls) - b) (drop a ls))"
      unfolding b_def by (rule trailing_lines_blank)
    have "b \<le> length (drop a ls)"
      unfolding b_def using length_takeWhile_le [of blank "rev (drop a ls)"] by simp
    moreover have "a \<le> length ls"
      unfolding a_def by (rule length_takeWhile_le)
    ultimately have "length (drop a ls) - b + a = length ls - b" by simp
    with t show ?thesis by (simp add: add.commute)
  qed
  have line: "normalize_lines ls ! j = drop (min_indent ls) (ls ! (a + j))
           \<and> blank (normalize_lines ls ! j) = blank (ls ! (a + j))
           \<and> (ls ! (a + j) = [] \<longrightarrow> normalize_lines ls ! j = [])"
    if j: "j < length (normalize_lines ls)" for j
  proof -
    from j len have c: "?core ! j = ls ! (a + j)" by simp
    from j len have jc: "j < length ?core" by simp
    have d: "normalize_lines ls ! j = drop (min_indent ls) (?core ! j)"
      unfolding shape using jc by (rule nth_map)
    have "normalize_lines ls ! j = strip_indent (min_indent ls) (?core ! j)"
      unfolding strip using jc by (rule nth_map)
    then have "blank (normalize_lines ls ! j) = blank (?core ! j)" by simp
    with c d show ?thesis by simp
  qed
  have "dedent x = join_lines (normalize_lines ls)" by (simp add: dedent_def ls_def)
  moreover have "normalize_lines ls = []
        \<or> (\<not> blank (hd (normalize_lines ls)) \<and> \<not> blank (last (normalize_lines ls)))"
    using normalize_lines_boundary [of ls] by blast
  ultimately show ?thesis using len lead trail line by blast
qed

theorem dedent_boundary_blank_lines_witness:
  "split_lines ''\<newline>\<newline>  a\<newline>    \<newline>\<newline>  b\<newline>  \<newline>''
     = ['''', '''', ''  a'', ''    '', '''', ''  b'', ''  '', '''']
   \<and> normalize_lines (split_lines ''\<newline>\<newline>  a\<newline>    \<newline>\<newline>  b\<newline>  \<newline>'')
     = [''a'', ''  '', '''', ''b'']
   \<and> dedent ''\<newline>\<newline>  a\<newline>    \<newline>\<newline>  b\<newline>  \<newline>'' = ''a\<newline>  \<newline>\<newline>b''
   \<and> (2::nat) < length (normalize_lines
         (split_lines ''\<newline>\<newline>  a\<newline>    \<newline>\<newline>  b\<newline>  \<newline>''))
   \<and> split_lines ''\<newline>\<newline>  a\<newline>    \<newline>\<newline>  b\<newline>  \<newline>'' ! (2 + 2) = []
   \<and> normalize_lines (split_lines ''\<newline>\<newline>  a\<newline>    \<newline>\<newline>  b\<newline>  \<newline>'') ! 2 = []"
  using dedent_boundary_blank_lines [of "''\<newline>\<newline>  a\<newline>    \<newline>\<newline>  b\<newline>  \<newline>''"]
  by (simp add: dedent_eval)

text \<open>
  C3. The reference input of the specification: the text whose lines are the empty line,
  \<open>    foo\<close> and \<open>    bar\<close> normalizes to \<open>foo\<close>, newline, \<open>bar\<close>.
\<close>

theorem dedent_reference_input:
  "split_lines ''\<newline>    foo\<newline>    bar'' = ['''', ''    foo'', ''    bar'']
   \<and> dedent ''\<newline>    foo\<newline>    bar'' = ''foo\<newline>bar''"
  by (simp add: dedent_eval)

text \<open>
  C8. The normalizer is total: it is a function from texts to texts with no failure
  path. The empty text and every text of blank lines only normalize to the empty text.
  In the worst case the result is dedented less than intended, never more: the
  indentation removed is no longer than the indentation of any line that is not blank,
  every line of the result is a line of the text without that many leading characters,
  and the characters other than whitespace and newlines are those of the text, in order.
\<close>

theorem dedent_total_blank_text:
  "dedent [] = []
   \<and> (list_all blank (split_lines x) \<longrightarrow> dedent x = [])
   \<and> content (dedent x) = content x
   \<and> list_all (\<lambda>l. blank l \<or> min_indent (split_lines x) \<le> indent l) (split_lines x)
   \<and> list_all (\<lambda>m. m \<in> set (map (drop (min_indent (split_lines x))) (split_lines x)))
        (normalize_lines (split_lines x))"
proof -
  let ?ls = "split_lines x"
  have "dedent x = []" if "list_all blank ?ls"
    using that by (simp add: dedent_def normalize_lines_all_blank)
  moreover have "list_all (\<lambda>l. blank l \<or> min_indent ?ls \<le> indent l) ?ls"
    by (simp add: list_all_iff common_indent)
  moreover have "list_all (\<lambda>m. m \<in> set (map (drop (min_indent ?ls)) ?ls)) (normalize_lines ?ls)"
  proof -
    have "m \<in> set (map (drop (min_indent ?ls)) ?ls)" if "m \<in> set (normalize_lines ?ls)" for m
    proof -
      from that obtain l where l: "l \<in> set ?ls" "m = strip_indent (min_indent ?ls) l"
        using set_normalize_lines [of ?ls] by auto
      then have "m = drop (min_indent ?ls) l" by (simp add: strip_indent_drop common_indent)
      moreover from l(1) have "drop (min_indent ?ls) l \<in> set (map (drop (min_indent ?ls)) ?ls)"
        by simp
      ultimately show ?thesis by (simp only:)
    qed
    then show ?thesis by (simp add: list_all_iff)
  qed
  ultimately show ?thesis by (simp add: dedent_empty content_dedent)
qed

theorem dedent_total_blank_text_witness:
  "list_all blank (split_lines ''\<newline>\<newline>\<newline>'')
   \<and> dedent ''\<newline>\<newline>\<newline>'' = []
   \<and> dedent (CHR 0x0A # CHR 0x09 # ''foo\<newline>  bar'') = ''foo\<newline> bar''"
proof -
  have h: "list_all blank (split_lines ''\<newline>\<newline>\<newline>'')"
    by (simp add: blank_def is_ws_def newline_def)
  have m: "dedent (CHR 0x0A # CHR 0x09 # ''foo\<newline>  bar'') = ''foo\<newline> bar''"
    by (simp add: dedent_eval)
  from dedent_total_blank_text [of "''\<newline>\<newline>\<newline>''"] h m show ?thesis by blast
qed

section \<open>Properties of the view composer\<close>

subsection \<open>The state is only read\<close>

lemma seq_emit [simp]: "seq (emit v) f = f v"
  by (simp add: seq_def emit_def)

lemma snd_seq:
  assumes "\<And>st. snd (m st) = st" and "\<And>v st. snd (f v st) = st"
  shows "snd (seq m f st) = st"
proof (cases "m st")
  case (Pair r st')
  with assms(1) [of st] have "st' = st" by simp
  with Pair assms(2) show ?thesis by (cases r) (simp_all add: seq_def)
qed

lemma snd_emit [simp]: "snd (emit v st) = st"
  by (simp add: emit_def)

lemma snd_call [simp]: "snd (call component prop st) = st"
  by (simp add: call_def)

lemma snd_read [simp]: "snd (read var st) = st"
  by (simp add: read_def)

lemma snd_notes_slot: "snd (notes_slot c n st) = st"
  by (cases n) (simp_all add: notes_slot_def snd_seq)

lemma snd_render_section: "snd (render_section c s st) = st"
  unfolding render_section_def
  by (intro snd_seq snd_call snd_notes_slot snd_emit)

lemma snd_each: "(\<And>x st. snd (body x st) = st) \<Longrightarrow> snd (each body xs st) = st"
  by (induction xs arbitrary: st) (simp_all add: snd_seq)

subsection \<open>Collaborators that always return\<close>

lemma call_reliable [simp]:
  "call (Markdown (reliable md hs ha)) x st = (Inr (md x), st)"
  "call (HighlightSvelte (reliable md hs ha)) x st = (Inr (hs x), st)"
  "call (HighlightAuto (reliable md hs ha)) x st = (Inr (ha x), st)"
  by (simp_all add: call_def reliable_def)

lemma notes_slot_reliable:
  "notes_slot (reliable md hs ha) n st = (Inr (notes_cell (rendered_notes md n)), st)"
  by (cases n) (simp_all add: notes_slot_def rendered_notes_def seq_def emit_def)

lemma render_section_reliable:
  "render_section (reliable md hs ha) s st =
     (Inr (section_markup (title s) (md (dedent (description s)))
            (hs (dedent (code (svelte s)))) (ha (dedent (code (vue s))))
            (notes_cell (rendered_notes md (notes (svelte s))))
            (notes_cell (rendered_notes md (notes (vue s))))), st)"
  by (simp add: render_section_def seq_def notes_slot_reliable emit_def)

lemma each_reliable:
  "(\<And>x st. body x st = (Inr (g x), st)) \<Longrightarrow> each body xs st = (Inr (map g xs), st)"
  by (induction xs arbitrary: st) (simp_all add: seq_def emit_def)

lemma render_main_reliable:
  "render_main (reliable md hs ha) st =
     (Inr (main_markup (map (\<lambda>s. section_markup (title s) (md (dedent (description s)))
            (hs (dedent (code (svelte s)))) (ha (dedent (code (vue s))))
            (notes_cell (rendered_notes md (notes (svelte s))))
            (notes_cell (rendered_notes md (notes (vue s))))) (sections st))), st)"
  by (simp add: render_main_def seq_def read_def emit_def each_reliable [OF render_section_reliable])

lemma rendered_sections_main [simp]: "rendered_sections (main_markup ns) = ns"
  by (simp add: rendered_sections_def main_markup_def)

lemma rendered_title_section [simp]:
  "rendered_title (section_markup t d a b na nb) = t"
  by (simp add: rendered_title_def section_markup_def)

lemma grid_section [simp]:
  "grid (section_markup t d a b na nb) = [code_cell ''Svelte'' a, code_cell ''Vue'' b, na, nb]"
  by (simp add: grid_def section_markup_def)

lemma highlighted_code_cell [simp]: "highlighted (code_cell l h) = [h]"
  by (simp add: highlighted_def code_cell_def)

lemma render_main_reliable_Inr:
  "\<exists>page. fst (render_main (reliable md hs ha) st) = Inr page"
  by (simp add: render_main_reliable)

subsection \<open>What a returned page holds\<close>

lemma notes_slot_Inr:
  assumes "notes_slot c n st = (Inr cell, st')"
  shows "\<exists>ms. cell = notes_cell ms \<and> map Inr ms = notes_calls c n"
proof (cases n)
  case None
  with assms show ?thesis by (auto simp: notes_slot_def notes_calls_def emit_def)
next
  case (Some s)
  show ?thesis
  proof (cases "s = []")
    case True
    with assms Some show ?thesis by (auto simp: notes_slot_def notes_calls_def emit_def)
  next
    case False
    with assms Some show ?thesis
      by (cases "Markdown c (dedent s)")
         (auto simp: notes_slot_def notes_calls_def emit_def seq_def call_def)
  qed
qed

lemma render_section_Inr:
  assumes "render_section c s st = (Inr sec, st')"
  shows "\<exists>d a b na nb.
           sec = section_markup (title s) d a b (notes_cell na) (notes_cell nb)
           \<and> Markdown c (dedent (description s)) = Inr d
           \<and> HighlightSvelte c (dedent (code (svelte s))) = Inr a
           \<and> HighlightAuto c (dedent (code (vue s))) = Inr b
           \<and> map Inr na = notes_calls c (notes (svelte s))
           \<and> map Inr nb = notes_calls c (notes (vue s))"
proof -
  obtain d where d: "Markdown c (dedent (description s)) = Inr d"
    using assms by (cases "Markdown c (dedent (description s))")
      (auto simp: render_section_def seq_def call_def)
  obtain a where a: "HighlightSvelte c (dedent (code (svelte s))) = Inr a"
    using assms d by (cases "HighlightSvelte c (dedent (code (svelte s)))")
      (auto simp: render_section_def seq_def call_def)
  obtain b where b: "HighlightAuto c (dedent (code (vue s))) = Inr b"
    using assms d a by (cases "HighlightAuto c (dedent (code (vue s)))")
      (auto simp: render_section_def seq_def call_def)
  obtain ra sa where ra: "notes_slot c (notes (svelte s)) st = (ra, sa)"
    by (cases "notes_slot c (notes (svelte s)) st")
  have sa: "sa = st" using snd_notes_slot [of c "notes (svelte s)" st] ra by simp
  obtain ca where ca: "ra = Inr ca"
    using assms d a b ra by (cases ra) (auto simp: render_section_def seq_def call_def)
  obtain rb sb where rb: "notes_slot c (notes (vue s)) st = (rb, sb)"
    by (cases "notes_slot c (notes (vue s)) st")
  obtain cb where cb: "rb = Inr cb"
    using assms d a b ra sa ca rb by (cases rb) (auto simp: render_section_def seq_def call_def)
  have sec: "sec = section_markup (title s) d a b ca cb"
    using assms d a b ra sa ca rb cb by (simp add: render_section_def seq_def call_def emit_def)
  from ra ca obtain na where na: "ca = notes_cell na" "map Inr na = notes_calls c (notes (svelte s))"
    using notes_slot_Inr by blast
  from rb cb obtain nb where nb: "cb = notes_cell nb" "map Inr nb = notes_calls c (notes (vue s))"
    using notes_slot_Inr by blast
  from sec d a b na nb show ?thesis by blast
qed

lemma each_Inr:
  assumes "each body xs st = (Inr ns, st')"
    and "\<And>x st n st'. body x st = (Inr n, st') \<Longrightarrow> P x n"
  shows "list_all2 P xs ns"
  using assms(1)
proof (induction xs arbitrary: ns st st')
  case Nil
  then show ?case by (simp add: emit_def)
next
  case (Cons x xs)
  obtain r s1 where r: "body x st = (r, s1)" by (cases "body x st")
  obtain n where n: "r = Inr n"
    using Cons.prems r by (cases r) (auto simp: seq_def)
  obtain q s2 where q: "each body xs s1 = (q, s2)" by (cases "each body xs s1")
  obtain ms where ms: "q = Inr ms"
    using Cons.prems r n q by (cases q) (auto simp: seq_def)
  from Cons.prems r n q ms have "ns = n # ms" by (simp add: seq_def emit_def)
  moreover from r n have "P x n" by (simp add: assms(2))
  moreover from q ms have "each body xs s1 = (Inr ms, s2)" by simp
  then have "list_all2 P xs ms" by (rule Cons.IH)
  ultimately show ?case by simp
qed

lemma map_eq_list_all2: "list_all2 (\<lambda>x n. f n = g x) xs ns \<Longrightarrow> map f ns = map g xs"
  by (induction xs ns rule: list_all2_induct) simp_all

lemma render_main_Inr:
  assumes "fst (render_main c st) = Inr page"
    and "\<And>s st sec st'. render_section c s st = (Inr sec, st') \<Longrightarrow> f sec = g s"
  shows "map f (rendered_sections page) = map g (sections st)"
proof -
  obtain q s1 where q: "each (render_section c) (sections st) st = (q, s1)"
    by (cases "each (render_section c) (sections st) st")
  obtain ns where ns: "q = Inr ns"
    using assms(1) q by (cases q) (auto simp: render_main_def seq_def read_def)
  from assms(1) q ns have page: "page = main_markup ns"
    by (simp add: render_main_def seq_def read_def emit_def)
  from q ns have "each (render_section c) (sections st) st = (Inr ns, s1)" by simp
  then have "list_all2 (\<lambda>s sec. f sec = g s) (sections st) ns"
    by (rule each_Inr [where P = "\<lambda>s sec. f sec = g s"]) (rule assms(2))
  then have "map f ns = map g (sections st)" by (rule map_eq_list_all2)
  with page show ?thesis by simp
qed

lemma list_all_of_map_const: "map f ns = map (\<lambda>x. k) xs \<Longrightarrow> list_all (\<lambda>n. f n = k) ns"
  by (induction ns arbitrary: xs) auto

lemma render_main_rel:
  assumes "fst (render_main c st) = Inr page"
    and "\<And>s st sec st'. render_section c s st = (Inr sec, st') \<Longrightarrow> P s sec"
  shows "list_all2 P (sections st) (rendered_sections page)"
proof -
  obtain q s1 where q: "each (render_section c) (sections st) st = (q, s1)"
    by (cases "each (render_section c) (sections st) st")
  obtain ns where ns: "q = Inr ns"
    using assms(1) q by (cases q) (auto simp: render_main_def seq_def read_def)
  from assms(1) q ns have page: "page = main_markup ns"
    by (simp add: render_main_def seq_def read_def emit_def)
  from q ns have "each (render_section c) (sections st) st = (Inr ns, s1)" by simp
  then have "list_all2 P (sections st) ns"
    by (rule each_Inr [where P = P]) (rule assms(2))
  with page show ?thesis by simp
qed

lemma notes_slots_rendered:
  assumes "fst (render_main c st) = Inr page"
  shows "map (\<lambda>sec. map (\<lambda>cell. map Inr (children cell)) (notes_slots sec)) (rendered_sections page)
          = map (\<lambda>s. [notes_calls c (notes (svelte s)), notes_calls c (notes (vue s))]) (sections st)"
  using assms
proof (rule render_main_Inr)
  fix s st sec st' assume "render_section c s st = (Inr sec, st')"
  then show "map (\<lambda>cell. map Inr (children cell)) (notes_slots sec)
      = [notes_calls c (notes (svelte s)), notes_calls c (notes (vue s))]"
    by (auto dest!: render_section_Inr simp: notes_slots_def notes_cell_def)
qed

subsection \<open>A component that throws\<close>

lemma each_raises:
  assumes "x \<in> set xs" and "\<And>st. \<exists>e. fst (body x st) = Inl e"
  shows "\<exists>e. fst (each body xs st) = Inl e"
  using assms(1)
proof (induction xs arbitrary: st)
  case Nil
  then show ?case by simp
next
  case (Cons y ys)
  obtain r st' where b: "body y st = (r, st')" by (cases "body y st")
  show ?case
  proof (cases r)
    case (Inl e)
    with b show ?thesis by (simp add: seq_def)
  next
    case (Inr n)
    show ?thesis
    proof (cases "x = y")
      case True
      with assms(2) [of st] b Inr show ?thesis by simp
    next
      case False
      with Cons.prems have "x \<in> set ys" by simp
      then obtain e where "fst (each body ys st') = Inl e" using Cons.IH by blast
      then obtain st'' where "each body ys st' = (Inl e, st'')" by (cases "each body ys st'") simp
      with b Inr show ?thesis by (simp add: seq_def)
    qed
  qed
qed

lemma render_section_raises_svelte:
  assumes "HighlightSvelte c (dedent (code (svelte s))) = Inl e"
  shows "\<exists>e'. fst (render_section c s st) = Inl e'"
proof (cases "Markdown c (dedent (description s))")
  case (Inl e')
  then show ?thesis by (simp add: render_section_def seq_def call_def)
next
  case (Inr d)
  with assms show ?thesis by (simp add: render_section_def seq_def call_def)
qed

lemma render_section_raises_auto:
  assumes "HighlightAuto c (dedent (code (vue s))) = Inl e"
  shows "\<exists>e'. fst (render_section c s st) = Inl e'"
proof (cases "Markdown c (dedent (description s))")
  case (Inl e')
  then show ?thesis by (simp add: render_section_def seq_def call_def)
next
  case d: (Inr d)
  show ?thesis
  proof (cases "HighlightSvelte c (dedent (code (svelte s)))")
    case (Inl e')
    with d show ?thesis by (simp add: render_section_def seq_def call_def)
  next
    case (Inr a)
    with d assms show ?thesis by (simp add: render_section_def seq_def call_def)
  qed
qed

lemma render_main_raises:
  assumes "s \<in> set (sections st)" and "\<And>st. \<exists>e. fst (render_section c s st) = Inl e"
  shows "\<exists>e. fst (render_main c st) = Inl e"
proof -
  have "\<exists>e. fst (each (render_section c) (sections st) st) = Inl e"
    using assms by (rule each_raises)
  then obtain e where "fst (each (render_section c) (sections st) st) = Inl e" ..
  then obtain st' where "each (render_section c) (sections st) st = (Inl e, st')"
    by (cases "each (render_section c) (sections st) st") simp
  then show ?thesis by (simp add: render_main_def seq_def read_def)
qed

subsection \<open>Evaluation on the examples and on the page\<close>

lemma dedent_examples:
  "dedent ''\<newline>  Hi\<newline>'' = ''Hi''"
  "dedent ''\<newline>  a=1\<newline>'' = ''a=1''"
  "dedent ''\<newline>  b=2\<newline>'' = ''b=2''"
  "dedent ''\<newline>  ok\<newline>'' = ''ok''"
  "dedent ''\<newline>  **note**\<newline>'' = ''**note**''"
  by (simp_all add: dedent_eval)

lemma dedent_notes_of_the_page:
  "dedent input_binding_vue_notes = ''- v-model attribute (personally not a fan)''"
  by (simp add: input_binding_vue_notes_def dedent_eval)

lemma notes_nonempty:
  "hello_world_svelte_notes \<noteq> []"
  "hello_world_vue_notes \<noteq> []"
  "input_binding_svelte_notes \<noteq> []"
  "input_binding_vue_notes \<noteq> []"
  "control_flow_svelte_notes \<noteq> []"
  "control_flow_vue_notes \<noteq> []"
  "deep_state_svelte_notes \<noteq> []"
  "deep_state_vue_notes \<noteq> []"
  "derived_state_svelte_notes \<noteq> []"
  "derived_state_vue_notes \<noteq> []"
  "components_props_svelte_notes \<noteq> []"
  "components_props_vue_notes \<noteq> []"
  "async_promises_svelte_notes \<noteq> []"
  "async_promises_vue_notes \<noteq> []"
  by (simp_all add: hello_world_svelte_notes_def hello_world_vue_notes_def input_binding_svelte_notes_def input_binding_vue_notes_def control_flow_svelte_notes_def control_flow_vue_notes_def deep_state_svelte_notes_def deep_state_vue_notes_def derived_state_svelte_notes_def derived_state_vue_notes_def components_props_svelte_notes_def components_props_vue_notes_def async_promises_svelte_notes_def async_promises_vue_notes_def)

lemmas entry_defs =
  hello_world_def input_binding_def control_flow_def deep_state_def derived_state_def components_props_def async_promises_def

lemma titles_of_the_page:
  "map title (sections script) =
     [''Hello World (Counter)'', ''Input Binding'', ''Control Flow'',
      ''Deep State Reactivity / Object Mutability'', ''Derived state'', ''Components Props'',
      ''Async (Promises)'']"
  by (simp add: script_def entry_defs)

lemma example_entry_rendered:
  "fst (render_main (reliable md hs ha) \<lparr>sections = [example_entry]\<rparr>) =
     Inr (main_markup
       [section_markup ''X'' (md ''Hi'') (hs ''a=1'') (ha ''b=2'')
          (notes_cell []) (notes_cell [md ''**note**''])])"
  by (simp add: render_main_reliable example_entry_def rendered_notes_def dedent_examples)

section \<open>Claims about the view composer\<close>

text \<open>
  C4. For every entry of the content model the two variants are highlighted by different
  collaborators: the code cell of the first variant holds what \<open>HighlightSvelte\<close> (the
  highlighter of the known language) returns for the normalized \<open>svelte\<close> code, the code
  cell of the second what \<open>HighlightAuto\<close> (auto-detection) returns for the normalized
  \<open>vue\<close> code. Collaborators that keep their contract yield a page, and this holds of
  every page a render pass returns.
\<close>

theorem highlighters_asymmetric:
  "(\<exists>page. fst (render_main (reliable md hs ha) st) = Inr page)
   \<and> (fst (render_main c st) = Inr page \<longrightarrow>
        map (\<lambda>sec. map (\<lambda>cell. map Inr (highlighted cell)) (code_cells sec)) (rendered_sections page)
        = map (\<lambda>s. [[HighlightSvelte c (dedent (code (svelte s)))],
                    [HighlightAuto c (dedent (code (vue s)))]]) (sections st))"
proof -
  have "map (\<lambda>sec. map (\<lambda>cell. map Inr (highlighted cell)) (code_cells sec)) (rendered_sections page)
        = map (\<lambda>s. [[HighlightSvelte c (dedent (code (svelte s)))],
                    [HighlightAuto c (dedent (code (vue s)))]]) (sections st)"
    if "fst (render_main c st) = Inr page"
    using that
  proof (rule render_main_Inr)
    fix s st sec st' assume "render_section c s st = (Inr sec, st')"
    then show "map (\<lambda>cell. map Inr (highlighted cell)) (code_cells sec)
        = [[HighlightSvelte c (dedent (code (svelte s)))], [HighlightAuto c (dedent (code (vue s)))]]"
      by (auto dest!: render_section_Inr simp: code_cells_def)
  qed
  with render_main_reliable_Inr show ?thesis by blast
qed

theorem highlighters_asymmetric_witness:
  "\<exists>page. fst (render_main labelled \<lparr>sections = [example_entry]\<rparr>) = Inr page
     \<and> map (\<lambda>sec. map (\<lambda>cell. map Inr (highlighted cell)) (code_cells sec)) (rendered_sections page)
       = [[[Inr (Element ''HighlightSvelte'' [] [Text ''a=1'']) :: error + node],
           [Inr (Element ''HighlightAuto'' [] [Text ''b=2''])]]]"
proof -
  let ?st = "\<lparr>sections = [example_entry]\<rparr>"
  obtain page where p: "fst (render_main labelled ?st) = Inr page"
    unfolding labelled_def using render_main_reliable_Inr by blast
  with highlighters_asymmetric [of _ _ _ ?st labelled page]
  have "map (\<lambda>sec. map (\<lambda>cell. map Inr (highlighted cell)) (code_cells sec)) (rendered_sections page)
        = map (\<lambda>s. [[HighlightSvelte labelled (dedent (code (svelte s)))],
                    [HighlightAuto labelled (dedent (code (vue s)))]]) (sections ?st)"
    by blast
  also have "\<dots> = [[[Inr (Element ''HighlightSvelte'' [] [Text ''a=1'']) :: error + node],
           [Inr (Element ''HighlightAuto'' [] [Text ''b=2''])]]]"
    by (simp add: labelled_def reliable_def example_entry_def dedent_examples)
  finally have "map (\<lambda>sec. map (\<lambda>cell. map Inr (highlighted cell)) (code_cells sec)) (rendered_sections page)
        = [[[Inr (Element ''HighlightSvelte'' [] [Text ''a=1'']) :: error + node],
           [Inr (Element ''HighlightAuto'' [] [Text ''b=2''])]]]" .
  with p show ?thesis by (intro exI [of _ page] conjI)
qed

text \<open>
  C5. The titles of the rendered sections are the titles of the content model, element
  for element and in order.
\<close>

theorem titles_in_order:
  "(\<exists>page. fst (render_main (reliable md hs ha) st) = Inr page)
   \<and> (fst (render_main c st) = Inr page \<longrightarrow>
        map rendered_title (rendered_sections page) = map title (sections st))"
proof -
  have "map rendered_title (rendered_sections page) = map title (sections st)"
    if "fst (render_main c st) = Inr page"
    using that
  proof (rule render_main_Inr)
    fix s st sec st' assume "render_section c s st = (Inr sec, st')"
    then show "rendered_title sec = title s" by (auto dest!: render_section_Inr)
  qed
  with render_main_reliable_Inr show ?thesis by blast
qed

theorem titles_in_order_witness:
  "\<exists>page. fst (render_main labelled script) = Inr page
     \<and> map rendered_title (rendered_sections page) =
         [''Hello World (Counter)'', ''Input Binding'', ''Control Flow'',
          ''Deep State Reactivity / Object Mutability'', ''Derived state'', ''Components Props'',
          ''Async (Promises)'']"
proof -
  obtain page where p: "fst (render_main labelled script) = Inr page"
    unfolding labelled_def using render_main_reliable_Inr by blast
  with titles_in_order [of _ _ _ script labelled page]
  have "map rendered_title (rendered_sections page) = map title (sections script)"
    by blast
  then have "map rendered_title (rendered_sections page) =
         [''Hello World (Counter)'', ''Input Binding'', ''Control Flow'',
          ''Deep State Reactivity / Object Mutability'', ''Derived state'', ''Components Props'',
          ''Async (Promises)'']"
    by (simp only: titles_of_the_page)
  with p show ?thesis by (intro exI [of _ page] conjI)
qed

text \<open>
  C6. For every entry the rendered section has exactly two code cells and exactly two
  notes slots. The first code cell is the \<open>div\<close> with the label \<open>Svelte\<close> and what
  \<open>HighlightSvelte\<close> returned, the second the \<open>div\<close> with the label \<open>Vue\<close> and what
  \<open>HighlightAuto\<close> returned. A notes slot is a \<open>div\<close> that is there also when the
  variant has no notes: it is then empty; otherwise it holds the one \<open>Markdown\<close> of the
  normalized notes.
\<close>

theorem four_cells:
  "(\<exists>page. fst (render_main (reliable md hs ha) st) = Inr page)
   \<and> (fst (render_main c st) = Inr page \<longrightarrow>
        length (rendered_sections page) = length (sections st)
        \<and> list_all (\<lambda>sec. (length (code_cells sec), length (notes_slots sec)) = (2, 2))
            (rendered_sections page)
        \<and> map (\<lambda>sec. map (\<lambda>cell. map Inr (children cell)) (notes_slots sec)) (rendered_sections page)
          = map (\<lambda>s. [notes_calls c (notes (svelte s)), notes_calls c (notes (vue s))]) (sections st)
        \<and> list_all2 (\<lambda>s sec. \<exists>a b na nb.
              code_cells sec =
                [Element ''div'' [] [Element ''b'' [] [Text ''Svelte''], a],
                 Element ''div'' [] [Element ''b'' [] [Text ''Vue''], b]]
              \<and> notes_slots sec = [Element ''div'' [] na, Element ''div'' [] nb]
              \<and> HighlightSvelte c (dedent (code (svelte s))) = Inr a
              \<and> HighlightAuto c (dedent (code (vue s))) = Inr b
              \<and> map Inr na = notes_calls c (notes (svelte s))
              \<and> map Inr nb = notes_calls c (notes (vue s)))
            (sections st) (rendered_sections page))"
proof -
  have "length (rendered_sections page) = length (sections st)
        \<and> list_all (\<lambda>sec. (length (code_cells sec), length (notes_slots sec)) = (2, 2))
            (rendered_sections page)
        \<and> map (\<lambda>sec. map (\<lambda>cell. map Inr (children cell)) (notes_slots sec)) (rendered_sections page)
          = map (\<lambda>s. [notes_calls c (notes (svelte s)), notes_calls c (notes (vue s))]) (sections st)
        \<and> list_all2 (\<lambda>s sec. \<exists>a b na nb.
              code_cells sec =
                [Element ''div'' [] [Element ''b'' [] [Text ''Svelte''], a],
                 Element ''div'' [] [Element ''b'' [] [Text ''Vue''], b]]
              \<and> notes_slots sec = [Element ''div'' [] na, Element ''div'' [] nb]
              \<and> HighlightSvelte c (dedent (code (svelte s))) = Inr a
              \<and> HighlightAuto c (dedent (code (vue s))) = Inr b
              \<and> map Inr na = notes_calls c (notes (svelte s))
              \<and> map Inr nb = notes_calls c (notes (vue s)))
            (sections st) (rendered_sections page)"
    if r: "fst (render_main c st) = Inr page"
  proof -
    have a: "map (\<lambda>sec. (length (code_cells sec), length (notes_slots sec))) (rendered_sections page)
          = map (\<lambda>s. (2, 2)) (sections st)"
      using r
    proof (rule render_main_Inr)
      fix s st sec st' assume "render_section c s st = (Inr sec, st')"
      then show "(length (code_cells sec), length (notes_slots sec)) = (2, 2)"
        by (auto dest!: render_section_Inr simp: code_cells_def notes_slots_def)
    qed
    have b: "map (\<lambda>sec. map (\<lambda>cell. map Inr (children cell)) (notes_slots sec)) (rendered_sections page)
          = map (\<lambda>s. [notes_calls c (notes (svelte s)), notes_calls c (notes (vue s))]) (sections st)"
      using r by (rule notes_slots_rendered)
    have c: "list_all2 (\<lambda>s sec. \<exists>a b na nb.
              code_cells sec =
                [Element ''div'' [] [Element ''b'' [] [Text ''Svelte''], a],
                 Element ''div'' [] [Element ''b'' [] [Text ''Vue''], b]]
              \<and> notes_slots sec = [Element ''div'' [] na, Element ''div'' [] nb]
              \<and> HighlightSvelte c (dedent (code (svelte s))) = Inr a
              \<and> HighlightAuto c (dedent (code (vue s))) = Inr b
              \<and> map Inr na = notes_calls c (notes (svelte s))
              \<and> map Inr nb = notes_calls c (notes (vue s)))
            (sections st) (rendered_sections page)"
      using r
    proof (rule render_main_rel)
      fix s st sec st' assume "render_section c s st = (Inr sec, st')"
      then obtain d a b na nb where
        sec: "sec = section_markup (title s) d a b (notes_cell na) (notes_cell nb)"
        and out: "HighlightSvelte c (dedent (code (svelte s))) = Inr a"
          "HighlightAuto c (dedent (code (vue s))) = Inr b"
          "map Inr na = notes_calls c (notes (svelte s))"
          "map Inr nb = notes_calls c (notes (vue s))"
        using render_section_Inr by blast
      from sec have "code_cells sec =
                [Element ''div'' [] [Element ''b'' [] [Text ''Svelte''], a],
                 Element ''div'' [] [Element ''b'' [] [Text ''Vue''], b]]"
        and "notes_slots sec = [Element ''div'' [] na, Element ''div'' [] nb]"
        by (simp_all add: code_cells_def notes_slots_def code_cell_def notes_cell_def)
      with out show "\<exists>a b na nb.
              code_cells sec =
                [Element ''div'' [] [Element ''b'' [] [Text ''Svelte''], a],
                 Element ''div'' [] [Element ''b'' [] [Text ''Vue''], b]]
              \<and> notes_slots sec = [Element ''div'' [] na, Element ''div'' [] nb]
              \<and> HighlightSvelte c (dedent (code (svelte s))) = Inr a
              \<and> HighlightAuto c (dedent (code (vue s))) = Inr b
              \<and> map Inr na = notes_calls c (notes (svelte s))
              \<and> map Inr nb = notes_calls c (notes (vue s))"
        by blast
    qed
    from a have l: "length (rendered_sections page) = length (sections st)"
      by (rule map_eq_imp_length_eq)
    from a have "list_all (\<lambda>sec. (length (code_cells sec), length (notes_slots sec)) = (2, 2))
            (rendered_sections page)"
      by (rule list_all_of_map_const)
    with l b c show ?thesis by blast
  qed
  with render_main_reliable_Inr show ?thesis by blast
qed

theorem four_cells_witness:
  "\<exists>page. fst (render_main labelled \<lparr>sections = [example_entry]\<rparr>) = Inr page
     \<and> length (rendered_sections page) = 1
     \<and> list_all (\<lambda>sec. (length (code_cells sec), length (notes_slots sec)) = (2, 2))
          (rendered_sections page)
     \<and> map (\<lambda>sec. map (\<lambda>cell. map Inr (children cell)) (notes_slots sec)) (rendered_sections page)
       = [[[], [Inr (Element ''Markdown'' [] [Text ''**note**'']) :: error + node]]]
     \<and> map code_cells (rendered_sections page)
       = [[Element ''div'' [] [Element ''b'' [] [Text ''Svelte''],
                               Element ''HighlightSvelte'' [] [Text ''a=1'']],
           Element ''div'' [] [Element ''b'' [] [Text ''Vue''],
                               Element ''HighlightAuto'' [] [Text ''b=2'']]]]
     \<and> map notes_slots (rendered_sections page)
       = [[Element ''div'' [] [],
           Element ''div'' [] [Element ''Markdown'' [] [Text ''**note**'']]]]"
proof -
  let ?st = "\<lparr>sections = [example_entry]\<rparr>"
  let ?P = "\<lambda>s sec. \<exists>a b na nb.
              code_cells sec =
                [Element ''div'' [] [Element ''b'' [] [Text ''Svelte''], a],
                 Element ''div'' [] [Element ''b'' [] [Text ''Vue''], b]]
              \<and> notes_slots sec = [Element ''div'' [] na, Element ''div'' [] nb]
              \<and> HighlightSvelte labelled (dedent (code (svelte s))) = Inr a
              \<and> HighlightAuto labelled (dedent (code (vue s))) = Inr b
              \<and> map Inr na = notes_calls labelled (notes (svelte s))
              \<and> map Inr nb = notes_calls labelled (notes (vue s))"
  obtain page where p: "fst (render_main labelled ?st) = Inr page"
    unfolding labelled_def using render_main_reliable_Inr by blast
  with four_cells [of _ _ _ ?st labelled page]
  have f: "length (rendered_sections page) = length (sections ?st)
        \<and> list_all (\<lambda>sec. (length (code_cells sec), length (notes_slots sec)) = (2, 2))
            (rendered_sections page)
        \<and> map (\<lambda>sec. map (\<lambda>cell. map Inr (children cell)) (notes_slots sec)) (rendered_sections page)
          = map (\<lambda>s. [notes_calls labelled (notes (svelte s)), notes_calls labelled (notes (vue s))])
              (sections ?st)"
    and g: "list_all2 ?P (sections ?st) (rendered_sections page)"
    by blast+
  have "map (\<lambda>s. [notes_calls labelled (notes (svelte s)), notes_calls labelled (notes (vue s))])
              (sections ?st) = [[[], [Inr (Element ''Markdown'' [] [Text ''**note**'']) :: error + node]]]"
    by (simp add: notes_calls_def labelled_def reliable_def example_entry_def dedent_examples)
  with f have old: "length (rendered_sections page) = 1
     \<and> list_all (\<lambda>sec. (length (code_cells sec), length (notes_slots sec)) = (2, 2))
          (rendered_sections page)
     \<and> map (\<lambda>sec. map (\<lambda>cell. map Inr (children cell)) (notes_slots sec)) (rendered_sections page)
       = [[[], [Inr (Element ''Markdown'' [] [Text ''**note**'']) :: error + node]]]"
    by simp
  from g obtain sec where sec: "rendered_sections page = [sec]" and "?P example_entry sec"
    by (auto simp: list_all2_Cons1)
  then obtain a b na nb where
    cells: "code_cells sec =
                [Element ''div'' [] [Element ''b'' [] [Text ''Svelte''], a],
                 Element ''div'' [] [Element ''b'' [] [Text ''Vue''], b]]"
      "notes_slots sec = [Element ''div'' [] na, Element ''div'' [] nb]"
    and out: "HighlightSvelte labelled (dedent (code (svelte example_entry))) = Inr a"
      "HighlightAuto labelled (dedent (code (vue example_entry))) = Inr b"
      "map Inr na = notes_calls labelled (notes (svelte example_entry))"
      "map Inr nb = notes_calls labelled (notes (vue example_entry))"
    by blast
  from out have "a = Element ''HighlightSvelte'' [] [Text ''a=1'']"
    and "b = Element ''HighlightAuto'' [] [Text ''b=2'']"
    and "na = []"
    and "nb = [Element ''Markdown'' [] [Text ''**note**'']]"
    by (auto simp: notes_calls_def labelled_def reliable_def example_entry_def dedent_examples)
  with cells sec have new: "map code_cells (rendered_sections page)
       = [[Element ''div'' [] [Element ''b'' [] [Text ''Svelte''],
                               Element ''HighlightSvelte'' [] [Text ''a=1'']],
           Element ''div'' [] [Element ''b'' [] [Text ''Vue''],
                               Element ''HighlightAuto'' [] [Text ''b=2'']]]]
     \<and> map notes_slots (rendered_sections page)
       = [[Element ''div'' [] [],
           Element ''div'' [] [Element ''Markdown'' [] [Text ''**note**'']]]]"
    by simp
  from p old new show ?thesis by (intro exI [of _ page] conjI) simp_all
qed

text \<open>
  C7 (as the specification states it). When a highlighter throws on some input, the
  composer catches the failure and still produces output for the entry. The template has
  no handler: with a Svelte highlighter that throws on the code of the second of two
  entries, the render pass ends with the exception and yields no page at all.
\<close>

theorem raising_highlighter_aborts:
  "fst (render_main picky \<lparr>sections = [sound_entry, example_entry]\<rparr>) = Inl (Thrown ''HighlightSvelte'')"
  by (simp add: render_main_def render_section_def notes_slot_def seq_def read_def call_def
      emit_def picky_def sound_entry_def example_entry_def dedent_examples)

text \<open>
  C7 (amended). The composer has no failure path of its own and no fallback. When the
  collaborators return, as their contract demands, the pass yields a page with a section
  for every entry. When a highlighter throws on the normalized code of any entry, the
  whole render pass ends with an exception and no page is produced.
\<close>

theorem render_main_no_fallback:
  "(\<exists>page. fst (render_main (reliable md hs ha) st) = Inr page
       \<and> length (rendered_sections page) = length (sections st))
   \<and> (s \<in> set (sections st) \<and>
       (HighlightSvelte c (dedent (code (svelte s))) = Inl e \<or>
        HighlightAuto c (dedent (code (vue s))) = Inl e)
       \<longrightarrow> (\<exists>e'. fst (render_main c st) = Inl e'))"
proof -
  have "\<exists>page. fst (render_main (reliable md hs ha) st) = Inr page
       \<and> length (rendered_sections page) = length (sections st)"
    by (simp add: render_main_reliable)
  moreover have "\<exists>e'. fst (render_main c st) = Inl e'"
    if "s \<in> set (sections st)"
      and "HighlightSvelte c (dedent (code (svelte s))) = Inl e \<or>
           HighlightAuto c (dedent (code (vue s))) = Inl e"
  proof -
    from that(2) have "\<And>st. \<exists>e'. fst (render_section c s st) = Inl e'"
      using render_section_raises_svelte render_section_raises_auto by blast
    with that(1) show ?thesis by (rule render_main_raises)
  qed
  ultimately show ?thesis by blast
qed

theorem render_main_no_fallback_witness:
  "example_entry \<in> set (sections \<lparr>sections = [sound_entry, example_entry]\<rparr>)
   \<and> HighlightSvelte picky (dedent (code (svelte example_entry))) = Inl (Thrown ''HighlightSvelte'')
   \<and> (\<exists>e'. fst (render_main picky \<lparr>sections = [sound_entry, example_entry]\<rparr>) = Inl e')"
proof -
  have h: "example_entry \<in> set (sections \<lparr>sections = [sound_entry, example_entry]\<rparr>)
     \<and> HighlightSvelte picky (dedent (code (svelte example_entry))) = Inl (Thrown ''HighlightSvelte'')"
    by (simp add: picky_def example_entry_def dedent_examples)
  with render_main_no_fallback [of _ _ _ "\<lparr>sections = [sound_entry, example_entry]\<rparr>"
      example_entry picky "Thrown ''HighlightSvelte''"]
  show ?thesis by blast
qed

text \<open>
  C9. A render pass leaves the content model as it was: whatever the collaborators do with
  the strings they are given, and whether the pass ends with a page or with an exception,
  the state after the pass is the state before it.
\<close>

theorem render_main_reads_only: "snd (render_main c st) = st"
  unfolding render_main_def
  by (intro snd_seq snd_read snd_each snd_render_section snd_emit)

text \<open>
  C10. In the content model of the page both variants of every entry have notes that are
  present and not empty, so the empty branch of the notes cells is never taken: every
  notes slot of the rendered page is a \<open>div\<close> that holds what \<open>Markdown\<close> returned for the
  normalized notes.
\<close>

theorem notes_always_present:
  "list_all (\<lambda>s. truthy (notes (svelte s)) \<and> truthy (notes (vue s))) (sections script)
   \<and> (\<exists>page. fst (render_main (reliable md hs ha) script) = Inr page
        \<and> map notes_slots (rendered_sections page) =
            [[Element ''div'' [] [md (dedent hello_world_svelte_notes)],
              Element ''div'' [] [md (dedent hello_world_vue_notes)]],
             [Element ''div'' [] [md (dedent input_binding_svelte_notes)],
              Element ''div'' [] [md (dedent input_binding_vue_notes)]],
             [Element ''div'' [] [md (dedent control_flow_svelte_notes)],
              Element ''div'' [] [md (dedent control_flow_vue_notes)]],
             [Element ''div'' [] [md (dedent deep_state_svelte_notes)],
              Element ''div'' [] [md (dedent deep_state_vue_notes)]],
             [Element ''div'' [] [md (dedent derived_state_svelte_notes)],
              Element ''div'' [] [md (dedent derived_state_vue_notes)]],
             [Element ''div'' [] [md (dedent components_props_svelte_notes)],
              Element ''div'' [] [md (dedent components_props_vue_notes)]],
             [Element ''div'' [] [md (dedent async_promises_svelte_notes)],
              Element ''div'' [] [md (dedent async_promises_vue_notes)]]])
   \<and> (fst (render_main c script) = Inr page \<longrightarrow>
        map (\<lambda>sec. map (\<lambda>cell. map Inr (children cell)) (notes_slots sec)) (rendered_sections page) =
            [[[Markdown c (dedent hello_world_svelte_notes)], [Markdown c (dedent hello_world_vue_notes)]],
             [[Markdown c (dedent input_binding_svelte_notes)], [Markdown c (dedent input_binding_vue_notes)]],
             [[Markdown c (dedent control_flow_svelte_notes)], [Markdown c (dedent control_flow_vue_notes)]],
             [[Markdown c (dedent deep_state_svelte_notes)], [Markdown c (dedent deep_state_vue_notes)]],
             [[Markdown c (dedent derived_state_svelte_notes)], [Markdown c (dedent derived_state_vue_notes)]],
             [[Markdown c (dedent components_props_svelte_notes)], [Markdown c (dedent components_props_vue_notes)]],
             [[Markdown c (dedent async_promises_svelte_notes)], [Markdown c (dedent async_promises_vue_notes)]]])"
proof -
  have "list_all (\<lambda>s. truthy (notes (svelte s)) \<and> truthy (notes (vue s))) (sections script)"
    by (simp add: script_def entry_defs truthy_def notes_nonempty)
  moreover have "\<exists>page. fst (render_main (reliable md hs ha) script) = Inr page
        \<and> map notes_slots (rendered_sections page) =
            [[Element ''div'' [] [md (dedent hello_world_svelte_notes)],
              Element ''div'' [] [md (dedent hello_world_vue_notes)]],
             [Element ''div'' [] [md (dedent input_binding_svelte_notes)],
              Element ''div'' [] [md (dedent input_binding_vue_notes)]],
             [Element ''div'' [] [md (dedent control_flow_svelte_notes)],
              Element ''div'' [] [md (dedent control_flow_vue_notes)]],
             [Element ''div'' [] [md (dedent deep_state_svelte_notes)],
              Element ''div'' [] [md (dedent deep_state_vue_notes)]],
             [Element ''div'' [] [md (dedent derived_state_svelte_notes)],
              Element ''div'' [] [md (dedent derived_state_vue_notes)]],
             [Element ''div'' [] [md (dedent components_props_svelte_notes)],
              Element ''div'' [] [md (dedent components_props_vue_notes)]],
             [Element ''div'' [] [md (dedent async_promises_svelte_notes)],
              Element ''div'' [] [md (dedent async_promises_vue_notes)]]]"
    by (simp add: render_main_reliable script_def entry_defs notes_nonempty
        notes_slots_def rendered_notes_def section_markup_def grid_def notes_cell_def)
  moreover have "map (\<lambda>sec. map (\<lambda>cell. map Inr (children cell)) (notes_slots sec)) (rendered_sections page) =
            [[[Markdown c (dedent hello_world_svelte_notes)], [Markdown c (dedent hello_world_vue_notes)]],
             [[Markdown c (dedent input_binding_svelte_notes)], [Markdown c (dedent input_binding_vue_notes)]],
             [[Markdown c (dedent control_flow_svelte_notes)], [Markdown c (dedent control_flow_vue_notes)]],
             [[Markdown c (dedent deep_state_svelte_notes)], [Markdown c (dedent deep_state_vue_notes)]],
             [[Markdown c (dedent derived_state_svelte_notes)], [Markdown c (dedent derived_state_vue_notes)]],
             [[Markdown c (dedent components_props_svelte_notes)], [Markdown c (dedent components_props_vue_notes)]],
             [[Markdown c (dedent async_promises_svelte_notes)], [Markdown c (dedent async_promises_vue_notes)]]]"
    if "fst (render_main c script) = Inr page"
  proof -
    have "map (\<lambda>s. [notes_calls c (notes (svelte s)), notes_calls c (notes (vue s))]) (sections script) =
            [[[Markdown c (dedent hello_world_svelte_notes)], [Markdown c (dedent hello_world_vue_notes)]],
             [[Markdown c (dedent input_binding_svelte_notes)], [Markdown c (dedent input_binding_vue_notes)]],
             [[Markdown c (dedent control_flow_svelte_notes)], [Markdown c (dedent control_flow_vue_notes)]],
             [[Markdown c (dedent deep_state_svelte_notes)], [Markdown c (dedent deep_state_vue_notes)]],
             [[Markdown c (dedent derived_state_svelte_notes)], [Markdown c (dedent derived_state_vue_notes)]],
             [[Markdown c (dedent components_props_svelte_notes)], [Markdown c (dedent components_props_vue_notes)]],
             [[Markdown c (dedent async_promises_svelte_notes)], [Markdown c (dedent async_promises_vue_notes)]]]"
      by (simp add: script_def entry_defs notes_calls_def notes_nonempty)
    with notes_slots_rendered [OF that] show ?thesis by (simp only:)
  qed
  ultimately show ?thesis by blast
qed

theorem notes_always_present_witness:
  "\<exists>page. fst (render_main labelled script) = Inr page
     \<and> map (\<lambda>sec. map (\<lambda>cell. map Inr (children cell)) (notes_slots sec)) (rendered_sections page) =
            [[[Inr (Element ''Markdown'' [] [Text (dedent hello_world_svelte_notes)]) :: error + node],
              [Inr (Element ''Markdown'' [] [Text (dedent hello_world_vue_notes)])]],
             [[Inr (Element ''Markdown'' [] [Text (dedent input_binding_svelte_notes)])],
              [Inr (Element ''Markdown'' [] [Text (dedent input_binding_vue_notes)])]],
             [[Inr (Element ''Markdown'' [] [Text (dedent control_flow_svelte_notes)])],
              [Inr (Element ''Markdown'' [] [Text (dedent control_flow_vue_notes)])]],
             [[Inr (Element ''Markdown'' [] [Text (dedent deep_state_svelte_notes)])],
              [Inr (Element ''Markdown'' [] [Text (dedent deep_state_vue_notes)])]],
             [[Inr (Element ''Markdown'' [] [Text (dedent derived_state_svelte_notes)])],
              [Inr (Element ''Markdown'' [] [Text (dedent derived_state_vue_notes)])]],
             [[Inr (Element ''Markdown'' [] [Text (dedent components_props_svelte_notes)])],
              [Inr (Element ''Markdown'' [] [Text (dedent components_props_vue_notes)])]],
             [[Inr (Element ''Markdown'' [] [Text (dedent async_promises_svelte_notes)])],
              [Inr (Element ''Markdown'' [] [Text (dedent async_promises_vue_notes)])]]]"
proof -
  obtain page where p: "fst (render_main labelled script) = Inr page"
    unfolding labelled_def using render_main_reliable_Inr by blast
  with notes_always_present [of _ _ _ labelled page]
  have "map (\<lambda>sec. map (\<lambda>cell. map Inr (children cell)) (notes_slots sec)) (rendered_sections page) =
            [[[Markdown labelled (dedent hello_world_svelte_notes)], [Markdown labelled (dedent hello_world_vue_notes)]],
             [[Markdown labelled (dedent input_binding_svelte_notes)], [Markdown labelled (dedent input_binding_vue_notes)]],
             [[Markdown labelled (dedent control_flow_svelte_notes)], [Markdown labelled (dedent control_flow_vue_notes)]],
             [[Markdown labelled (dedent deep_state_svelte_notes)], [Markdown labelled (dedent deep_state_vue_notes)]],
             [[Markdown labelled (dedent derived_state_svelte_notes)], [Markdown labelled (dedent derived_state_vue_notes)]],
             [[Markdown labelled (dedent components_props_svelte_notes)], [Markdown labelled (dedent components_props_vue_notes)]],
             [[Markdown labelled (dedent async_promises_svelte_notes)], [Markdown labelled (dedent async_promises_vue_notes)]]]"
    by blast
  then have "map (\<lambda>sec. map (\<lambda>cell. map Inr (children cell)) (notes_slots sec)) (rendered_sections page) =
            [[[Inr (Element ''Markdown'' [] [Text (dedent hello_world_svelte_notes)]) :: error + node],
              [Inr (Element ''Markdown'' [] [Text (dedent hello_world_vue_notes)])]],
             [[Inr (Element ''Markdown'' [] [Text (dedent input_binding_svelte_notes)])],
              [Inr (Element ''Markdown'' [] [Text (dedent input_binding_vue_notes)])]],
             [[Inr (Element ''Markdown'' [] [Text (dedent control_flow_svelte_notes)])],
              [Inr (Element ''Markdown'' [] [Text (dedent control_flow_vue_notes)])]],
             [[Inr (Element ''Markdown'' [] [Text (dedent deep_state_svelte_notes)])],
              [Inr (Element ''Markdown'' [] [Text (dedent deep_state_vue_notes)])]],
             [[Inr (Element ''Markdown'' [] [Text (dedent derived_state_svelte_notes)])],
              [Inr (Element ''Markdown'' [] [Text (dedent derived_state_vue_notes)])]],
             [[Inr (Element ''Markdown'' [] [Text (dedent components_props_svelte_notes)])],
              [Inr (Element ''Markdown'' [] [Text (dedent components_props_vue_notes)])]],
             [[Inr (Element ''Markdown'' [] [Text (dedent async_promises_svelte_notes)])],
              [Inr (Element ''Markdown'' [] [Text (dedent async_promises_vue_notes)])]]]"
    by (simp add: labelled_def reliable_def)
  with p show ?thesis by (intro exI [of _ page] conjI)
qed

end
